theory Spec2Isabelle
  imports Complex_Main
begin

section \<open>Data model\<close>

text \<open>
  The TypeScript interfaces of \<^verbatim>\<open>types.ts\<close> become records, one field per property.
  An optional property (\<^verbatim>\<open>field?: T\<close>) is an \<open>option\<close>, with \<open>None\<close> for
  \<^verbatim>\<open>undefined\<close>. Where two interfaces use the same property name, the field of the
  second one carries a short prefix (\<open>c_quantity\<close> for a component, \<open>quantity\<close> for a
  selection), because record fields are global names.

  Counts and quantities are JavaScript numbers that hold integers; they are modelled as
  \<open>int\<close>. Prices are modelled by the type \<open>number\<close> below.
\<close>

datatype BundleType = fixed | mix_and_match

datatype BundleDiscountType = percentage | fixed_amount | fixed_price | custom

datatype AvailabilityStatus = available | limited | out_of_stock | preorder

text \<open>
  A JavaScript number used as a price: \<open>NaN\<close> or a finite value. The operations \<open>num_add\<close>,
  \<open>num_sub\<close>, \<open>num_mul\<close> and \<open>num_div\<close> of the price calculator are exact on finite
  values; the resolver, whose inferred discount type depends on the rounding, computes
  with \<open>dbl_add\<close>, \<open>dbl_sub\<close>, \<open>dbl_mul\<close> and \<open>dbl_div\<close>, which round every result to the
  nearest double. Overflow to an infinity and the sign of zero are outside the model.
\<close>

datatype number = NaN | Num real

record Money =
  amount :: string
  currencyCode :: string

record ProductImage =
  url :: string
  altText :: "string option"
  width :: "int option"
  height :: "int option"

record BundleComponentVariant =
  variant_id :: string
  variant_title :: string
  price :: Money
  compareAtPrice :: "Money option"
  sku :: "string option"
  availableForSale :: bool
  quantityAvailable :: "int option"
  image :: "ProductImage option"
  selectedOptions :: "(string \<times> string) list option"

record BundleComponent =
  c_productId :: string
  productTitle :: string
  productHandle :: string
  productImage :: "ProductImage option"
  variants :: "BundleComponentVariant list"
  defaultVariantId :: "string option"
  c_quantity :: int
  allowQuantitySelection :: "bool option"
  minQuantity :: "int option"
  maxQuantity :: "int option"
  required :: "bool option"
  priceOverride :: "Money option"

record BundlePricing =
  discountType :: BundleDiscountType
  discountValue :: "number option"
  p_currencyCode :: "string option"
  p_originalPrice :: "Money option"
  p_bundlePrice :: "Money option"
  p_savings :: "Money option"
  p_savingsPercentage :: "number option"

record BundleDefinition =
  bundle_id :: string
  title :: string
  handle :: string
  description :: "string option"
  bundleType :: BundleType
  components :: "BundleComponent list"
  pricing :: BundlePricing
  minSelections :: "int option"
  maxSelections :: "int option"
  featuredImage :: "ProductImage option"
  bundle_availableForSale :: bool
  bundle_variantId :: "string option"

record BundleSelection =
  productId :: string
  variantId :: string
  quantity :: int

text \<open>
  \<^verbatim>\<open>customAttributes\<close> is a \<^verbatim>\<open>Record<string, string>\<close>; the code only reads it through
  \<^verbatim>\<open>Object.entries\<close>, so the model keeps the list of its entries in enumeration order.
\<close>

record AddBundleInput =
  bundleId :: string
  selectedComponents :: "BundleSelection list option"
  in_quantity :: "int option"
  cartId :: "string option"
  customAttributes :: "(string \<times> string) list option"

record Attribute =
  attr_key :: string
  attr_value :: string

text \<open>
  The cart functions are structurally typed: \<^verbatim>\<open>isBundleLine\<close> accepts any object with an
  \<^verbatim>\<open>attributes\<close> array. Record extension gives the same: a function on
  \<open>'a HasAttributes_scheme\<close> accepts the lines that are built for the mutation as well as
  the lines of a cart.
\<close>

record HasAttributes =
  attributes :: "Attribute list"

record CartLineInput = HasAttributes +
  merchandiseId :: string
  line_quantity :: int

record Merchandise =
  merchandise_id :: string
  merchandise_title :: string
  product_title :: string

record CartLine = HasAttributes +
  line_id :: string
  cart_quantity :: int
  merchandise :: Merchandise

record BundleLineAttributes =
  info_bundleParent :: "string option"
  info_bundleComponentOf :: "string option"
  info_bundleProductId :: "string option"
  info_bundleComponentIndex :: "string option"

record 'l BundleGroup =
  bundleProductId :: string
  lines :: "'l list"

record ValidationResult =
  valid :: bool
  error :: "string option"

datatype js_error =
  TypeError
  | BundleBridgeError string string

section \<open>Constants\<close>

definition BUNDLE_ATTRIBUTES_bundleParent :: string where
  "BUNDLE_ATTRIBUTES_bundleParent = ''_bundle_parent''"

definition BUNDLE_ATTRIBUTES_bundleComponentOf :: string where
  "BUNDLE_ATTRIBUTES_bundleComponentOf = ''_bundle_component_of''"

definition BUNDLE_ATTRIBUTES_bundleProductId :: string where
  "BUNDLE_ATTRIBUTES_bundleProductId = ''_bundle_product_id''"

definition BUNDLE_ATTRIBUTES_componentIndex :: string where
  "BUNDLE_ATTRIBUTES_componentIndex = ''_bundle_component_index''"

definition BUNDLE_ATTRIBUTES_componentProductId :: string where
  "BUNDLE_ATTRIBUTES_componentProductId = ''_bundle_component_product_id''"

definition BUNDLE_ATTRIBUTES_totalComponents :: string where
  "BUNDLE_ATTRIBUTES_totalComponents = ''_bundle_total_components''"

section \<open>Numbers as strings\<close>

text \<open>
  \<^verbatim>\<open>String(n)\<close> and a template literal \<^verbatim>\<open>${n}\<close> print an integer in decimal, without
  leading zeros, with a minus sign when it is negative. (JavaScript does so below
  \<open>10^21\<close>, far above any count or quantity; the model does so for every integer.)
\<close>

definition digit_char :: "nat \<Rightarrow> char" where
  "digit_char d = ''0123456789'' ! (d mod 10)"

function String_nat :: "nat \<Rightarrow> string" where
  "String_nat n =
     (if n < 10 then [digit_char n] else String_nat (n div 10) @ [digit_char (n mod 10)])"
  by pat_completeness auto
termination
  by (relation "measure (\<lambda>n. n)") auto

declare String_nat.simps [simp del]

definition String_int :: "int \<Rightarrow> string" where
  "String_int i = (if i < 0 then CHR ''-'' # String_nat (nat (- i)) else String_nat (nat i))"

definition digit_val :: "char \<Rightarrow> nat" where
  "digit_val c = of_char c - 48"

definition digits_val :: "string \<Rightarrow> nat" where
  "digits_val s = foldl (\<lambda>a c. 10 * a + digit_val c) 0 s"

section \<open>Tag codec (buildCartMutation.ts)\<close>

definition isBundleLine :: "'a HasAttributes_scheme \<Rightarrow> bool" where
  "isBundleLine line =
     list_ex (\<lambda>attr. attr_key attr = BUNDLE_ATTRIBUTES_bundleParent \<and> attr_value attr = ''true'')
       (attributes line)"

text \<open>The \<^verbatim>\<open>for\<close> loop of \<^verbatim>\<open>getBundleInfoFromLine\<close>: a later attribute overwrites an earlier one.\<close>

definition getBundleInfoFromLine_step :: "BundleLineAttributes \<Rightarrow> Attribute \<Rightarrow> BundleLineAttributes" where
  "getBundleInfoFromLine_step attrs attr =
     (if attr_key attr = BUNDLE_ATTRIBUTES_bundleParent
        then attrs\<lparr>info_bundleParent := Some (attr_value attr)\<rparr>
      else if attr_key attr = BUNDLE_ATTRIBUTES_bundleProductId
        then attrs\<lparr>info_bundleProductId := Some (attr_value attr)\<rparr>
      else if attr_key attr = BUNDLE_ATTRIBUTES_componentIndex
        then attrs\<lparr>info_bundleComponentIndex := Some (attr_value attr)\<rparr>
      else attrs)"

definition getBundleInfoFromLine :: "'a HasAttributes_scheme \<Rightarrow> BundleLineAttributes" where
  "getBundleInfoFromLine line =
     foldl getBundleInfoFromLine_step
       \<lparr>info_bundleParent = None, info_bundleComponentOf = None,
        info_bundleProductId = None, info_bundleComponentIndex = None\<rparr>
       (attributes line)"

text \<open>
  A JavaScript \<^verbatim>\<open>Map\<close> keeps its keys in insertion order: it is an association list with
  distinct keys. \<^verbatim>\<open>set\<close> replaces the value of a key in place or appends a new entry.
\<close>

type_synonym ('k, 'v) js_map = "('k \<times> 'v) list"

definition Map_has :: "('k, 'v) js_map \<Rightarrow> 'k \<Rightarrow> bool" where
  "Map_has m k = (map_of m k \<noteq> None)"

fun Map_set :: "('k, 'v) js_map \<Rightarrow> 'k \<Rightarrow> 'v \<Rightarrow> ('k, 'v) js_map" where
  "Map_set [] k v = [(k, v)]"
| "Map_set (p # ps) k v = (if fst p = k then (k, v) # ps else p # Map_set ps k v)"

text \<open>
  \<^verbatim>\<open>groups.get(bundleId)!.lines.push(line)\<close> mutates the group stored under the key; the
  key is present at that point, since the statement before it has just set it when it
  was missing.
\<close>

fun Map_get_push :: "('k, 'l BundleGroup) js_map \<Rightarrow> 'k \<Rightarrow> 'l \<Rightarrow> ('k, 'l BundleGroup) js_map" where
  "Map_get_push [] k line = []"
| "Map_get_push (p # ps) k line =
     (if fst p = k then (k, (snd p)\<lparr>lines := lines (snd p) @ [line]\<rparr>) # ps
      else p # Map_get_push ps k line)"

definition groupCartLinesByBundle_step ::
  "(string, 'a HasAttributes_scheme BundleGroup) js_map \<Rightarrow> 'a HasAttributes_scheme
     \<Rightarrow> (string, 'a HasAttributes_scheme BundleGroup) js_map" where
  "groupCartLinesByBundle_step groups line =
     (if \<not> isBundleLine line then groups
      else case info_bundleProductId (getBundleInfoFromLine line) of
        None \<Rightarrow> groups
      | Some bid \<Rightarrow>
          if bid = [] then groups
          else
            let groups' =
              (if \<not> Map_has groups bid
               then Map_set groups bid \<lparr>bundleProductId = bid, lines = []\<rparr>
               else groups)
            in Map_get_push groups' bid line)"

definition groupCartLinesByBundle ::
  "'a HasAttributes_scheme list \<Rightarrow> (string, 'a HasAttributes_scheme BundleGroup) js_map" where
  "groupCartLinesByBundle ls = foldl groupCartLinesByBundle_step [] ls"

section \<open>Selection validation (validation.ts)\<close>

text \<open>
  \<^verbatim>\<open>definition.minSelections && totalSelections < definition.minSelections\<close>: the bound is
  tested for truthiness first, so an absent bound and the bound 0 both switch the check
  off. \<open>truthy_and\<close> is that conjunction.
\<close>

definition truthy_and :: "int option \<Rightarrow> (int \<Rightarrow> bool) \<Rightarrow> bool" where
  "truthy_and b P = (case b of None \<Rightarrow> False | Some n \<Rightarrow> n \<noteq> 0 \<and> P n)"

definition validateSelection ::
  "BundleDefinition \<Rightarrow> BundleSelection \<Rightarrow> string option" where
  "validateSelection definition selection =
     (case find (\<lambda>c. c_productId c = productId selection) (components definition) of
        None \<Rightarrow> Some (''Invalid product selection: '' @ productId selection)
      | Some component \<Rightarrow>
          (case find (\<lambda>v. variant_id v = variantId selection) (variants component) of
             None \<Rightarrow> Some (''Invalid variant selection for '' @ productTitle component)
           | Some variant \<Rightarrow>
               if allowQuantitySelection component = Some True then
                 (if truthy_and (minQuantity component) (\<lambda>n. quantity selection < n)
                  then Some (''Minimum quantity for '' @ productTitle component @ '' is ''
                             @ String_int (the (minQuantity component)))
                  else if truthy_and (maxQuantity component) (\<lambda>n. quantity selection > n)
                  then Some (''Maximum quantity for '' @ productTitle component @ '' is ''
                             @ String_int (the (maxQuantity component)))
                  else None)
               else None))"

text \<open>The \<^verbatim>\<open>for\<close> loop over the selections: the first violation returns.\<close>

fun validateSelections :: "BundleDefinition \<Rightarrow> BundleSelection list \<Rightarrow> ValidationResult" where
  "validateSelections definition [] = \<lparr>valid = True, error = None\<rparr>"
| "validateSelections definition (selection # rest) =
     (case validateSelection definition selection of
        Some e \<Rightarrow> \<lparr>valid = False, error = Some e\<rparr>
      | None \<Rightarrow> validateSelections definition rest)"

definition validateBundleSelection ::
  "BundleDefinition \<Rightarrow> BundleSelection list \<Rightarrow> ValidationResult" where
  "validateBundleSelection definition selections =
     (if bundleType definition = fixed then \<lparr>valid = True, error = None\<rparr>
      else
        let totalSelections = foldl (\<lambda>sum s. sum + quantity s) 0 selections in
        if truthy_and (minSelections definition) (\<lambda>m. totalSelections < m)
        then \<lparr>valid = False,
              error = Some (''Please select at least '' @ String_int (the (minSelections definition))
                            @ '' items.'')\<rparr>
        else if truthy_and (maxSelections definition) (\<lambda>m. totalSelections > m)
        then \<lparr>valid = False,
              error = Some (''You can select at most '' @ String_int (the (maxSelections definition))
                            @ '' items.'')\<rparr>
        else validateSelections definition selections)"

section \<open>Cart-mutation builder (buildCartMutation.ts)\<close>

definition buildBundleAttributes :: "string \<Rightarrow> nat \<Rightarrow> nat \<Rightarrow> string \<Rightarrow> Attribute list" where
  "buildBundleAttributes bid componentIndex totalComponents componentProductId =
     [\<lparr>attr_key = BUNDLE_ATTRIBUTES_bundleParent, attr_value = ''true''\<rparr>,
      \<lparr>attr_key = BUNDLE_ATTRIBUTES_bundleProductId, attr_value = bid\<rparr>,
      \<lparr>attr_key = BUNDLE_ATTRIBUTES_componentIndex, attr_value = String_nat componentIndex\<rparr>,
      \<lparr>attr_key = BUNDLE_ATTRIBUTES_totalComponents, attr_value = String_nat totalComponents\<rparr>,
      \<lparr>attr_key = BUNDLE_ATTRIBUTES_componentProductId, attr_value = componentProductId\<rparr>]"

text \<open>
  \<^verbatim>\<open>c.defaultVariantId ?? c.variants[0]!.id\<close>: without a default variant id the first
  variant is read; on an empty variant list \<^verbatim>\<open>variants[0]\<close> is \<^verbatim>\<open>undefined\<close> and reading
  its \<^verbatim>\<open>id\<close> throws a TypeError.
\<close>

definition defaultVariantIdOf :: "BundleComponent \<Rightarrow> js_error + string" where
  "defaultVariantIdOf c =
     (case defaultVariantId c of
        Some v \<Rightarrow> Inr v
      | None \<Rightarrow> (case variants c of [] \<Rightarrow> Inl TypeError | v # _ \<Rightarrow> Inr (variant_id v)))"

text \<open>\<^verbatim>\<open>definition.components.map(...)\<close>, which stops at the first component that throws.\<close>

fun defaultComponents :: "BundleComponent list \<Rightarrow> js_error + BundleSelection list" where
  "defaultComponents [] = Inr []"
| "defaultComponents (c # cs) =
     (case defaultVariantIdOf c of
        Inl e \<Rightarrow> Inl e
      | Inr v \<Rightarrow>
          (case defaultComponents cs of
             Inl e \<Rightarrow> Inl e
           | Inr rest \<Rightarrow> Inr (\<lparr>productId = c_productId c, variantId = v, quantity = c_quantity c\<rparr> # rest)))"

text \<open>
  The block "determine which variants to add", which \<^verbatim>\<open>buildBundleCartLines\<close> and
  \<^verbatim>\<open>checkInventoryFromStorefrontApi\<close> both contain: the selections when there are any,
  else the default variant of every component.
\<close>

definition componentsToAdd ::
  "BundleDefinition \<Rightarrow> BundleSelection list option \<Rightarrow> js_error + BundleSelection list" where
  "componentsToAdd definition selected =
     (case selected of
        Some ss \<Rightarrow>
          if length ss > 0
          then Inr (map (\<lambda>s. \<lparr>productId = productId s, variantId = variantId s, quantity = quantity s\<rparr>) ss)
          else defaultComponents (components definition)
      | None \<Rightarrow> defaultComponents (components definition))"

definition customAttributeEntries :: "AddBundleInput \<Rightarrow> Attribute list" where
  "customAttributeEntries input =
     (case customAttributes input of
        None \<Rightarrow> []
      | Some entries \<Rightarrow> map (\<lambda>(k, v). \<lparr>attr_key = k, attr_value = v\<rparr>) entries)"

text \<open>The line that the \<^verbatim>\<open>forEach\<close> callback pushes for one component.\<close>

definition bundleLine ::
  "BundleDefinition \<Rightarrow> AddBundleInput \<Rightarrow> int \<Rightarrow> nat \<Rightarrow> nat \<Rightarrow> BundleSelection \<Rightarrow> CartLineInput" where
  "bundleLine definition input bundleQuantity totalComponents index component =
     \<lparr>attributes =
        buildBundleAttributes (bundle_id definition) index totalComponents (productId component)
        @ customAttributeEntries input,
      merchandiseId = variantId component,
      line_quantity = quantity component * bundleQuantity\<rparr>"

definition buildBundleCartLines ::
  "BundleDefinition \<Rightarrow> AddBundleInput \<Rightarrow> js_error + CartLineInput list" where
  "buildBundleCartLines definition input =
     (let bundleQuantity = (case in_quantity input of Some q \<Rightarrow> q | None \<Rightarrow> 1) in
      case componentsToAdd definition (selectedComponents input) of
        Inl e \<Rightarrow> Inl e
      | Inr cs \<Rightarrow>
          let totalComponents = length cs in
          Inr (map (\<lambda>(index, component).
                      bundleLine definition input bundleQuantity totalComponents index component)
                 (enumerate 0 cs)))"

section \<open>Numbers (prices)\<close>

text \<open>
  The arithmetic of JavaScript on \<open>number\<close>: every operation with a \<open>NaN\<close> operand is
  \<open>NaN\<close>, every comparison with \<open>NaN\<close> is false. The code divides by 100 and by a total
  it has tested to be positive only; \<open>num_div\<close> by zero (an infinity or \<open>NaN\<close> in
  JavaScript) is not reached and is \<open>NaN\<close> here.
\<close>

fun num_add :: "number \<Rightarrow> number \<Rightarrow> number" where
  "num_add (Num a) (Num b) = Num (a + b)"
| "num_add _ _ = NaN"

fun num_sub :: "number \<Rightarrow> number \<Rightarrow> number" where
  "num_sub (Num a) (Num b) = Num (a - b)"
| "num_sub _ _ = NaN"

fun num_mul :: "number \<Rightarrow> number \<Rightarrow> number" where
  "num_mul (Num a) (Num b) = Num (a * b)"
| "num_mul _ _ = NaN"

fun num_div :: "number \<Rightarrow> number \<Rightarrow> number" where
  "num_div (Num a) (Num b) = (if b = 0 then NaN else Num (a / b))"
| "num_div _ _ = NaN"

fun num_gt :: "number \<Rightarrow> number \<Rightarrow> bool" where
  "num_gt (Num a) (Num b) = (a > b)"
| "num_gt _ _ = False"

fun num_lt :: "number \<Rightarrow> number \<Rightarrow> bool" where
  "num_lt (Num a) (Num b) = (a < b)"
| "num_lt _ _ = False"

fun num_eq :: "number \<Rightarrow> number \<Rightarrow> bool" where
  "num_eq (Num a) (Num b) = (a = b)"
| "num_eq _ _ = False"

fun Math_max :: "number \<Rightarrow> number \<Rightarrow> number" where
  "Math_max (Num a) (Num b) = Num (max a b)"
| "Math_max _ _ = NaN"

fun Math_round :: "number \<Rightarrow> number" where
  "Math_round (Num a) = Num (of_int \<lfloor>a + 1 / 2\<rfloor>)"
| "Math_round NaN = NaN"

definition is_digit :: "char \<Rightarrow> bool" where
  "is_digit c = List.member ''0123456789'' c"

definition is_space :: "char \<Rightarrow> bool" where
  "is_space c = List.member [CHR '' '', CHR 0x09, CHR 0x0A, CHR 0x0B, CHR 0x0C, CHR 0x0D] c"

text \<open>
  \<^verbatim>\<open>parseFloat\<close>: skip leading white space (the ASCII one here), then read the longest
  prefix that is a decimal literal (sign, digits, fraction, exponent); \<open>NaN\<close> when there
  is none. The literal \<^verbatim>\<open>Infinity\<close> has no value in \<open>number\<close> and is not recognised.
\<close>

definition parseExponent :: "string \<Rightarrow> int" where
  "parseExponent s =
     (case s of
        [] \<Rightarrow> 0
      | c # r \<Rightarrow>
          if c = CHR ''e'' \<or> c = CHR ''E'' then
            (case r of
               [] \<Rightarrow> 0
             | d # r' \<Rightarrow>
                 if d = CHR ''-'' then - int (digits_val (takeWhile is_digit r'))
                 else if d = CHR ''+'' then int (digits_val (takeWhile is_digit r'))
                 else int (digits_val (takeWhile is_digit r)))
          else 0)"

definition pow10 :: "int \<Rightarrow> real" where
  "pow10 e = (if e < 0 then 1 / 10 ^ nat (- e) else 10 ^ nat e)"

definition parseUnsigned :: "string \<Rightarrow> real option" where
  "parseUnsigned s =
     (let intDigits = takeWhile is_digit s;
          rest = dropWhile is_digit s;
          hasPoint = (rest \<noteq> [] \<and> hd rest = CHR ''.'');
          fracDigits = (if hasPoint then takeWhile is_digit (tl rest) else []);
          rest' = (if hasPoint then dropWhile is_digit (tl rest) else rest)
      in if intDigits = [] \<and> fracDigits = [] then None
         else Some ((real (digits_val intDigits)
                     + real (digits_val fracDigits) / 10 ^ length fracDigits)
                    * pow10 (parseExponent rest')))"

definition parseFloat :: "string \<Rightarrow> number" where
  "parseFloat s =
     (let t = dropWhile is_space s in
      case t of
        [] \<Rightarrow> NaN
      | c # r \<Rightarrow>
          if c = CHR ''-'' then (case parseUnsigned r of None \<Rightarrow> NaN | Some x \<Rightarrow> Num (- x))
          else if c = CHR ''+'' then (case parseUnsigned r of None \<Rightarrow> NaN | Some x \<Rightarrow> Num x)
          else (case parseUnsigned t of None \<Rightarrow> NaN | Some x \<Rightarrow> Num x))"

text \<open>
  \<^verbatim>\<open>x.toFixed(2)\<close>: the integer \<open>n\<close> nearest to \<open>100 * x\<close> (the larger one on a tie),
  printed with two fraction digits; a negative \<open>x\<close> prints the minus sign and then its
  magnitude. From \<open>10^21\<close> on JavaScript prints in exponent notation instead, which the
  model does not follow.
\<close>

definition fixed2 :: "real \<Rightarrow> string" where
  "fixed2 x =
     (let n = nat \<lfloor>x * 100 + 1 / 2\<rfloor> in
      String_nat (n div 100) @ ''.'' @ [digit_char (n mod 100 div 10), digit_char (n mod 10)])"

definition toFixed2 :: "number \<Rightarrow> string" where
  "toFixed2 x =
     (case x of
        NaN \<Rightarrow> ''NaN''
      | Num r \<Rightarrow> if r < 0 then CHR ''-'' # fixed2 (- r) else fixed2 r)"

section \<open>Price calculator (calculatePrice.ts)\<close>

record ComponentPrice =
  cp_productId :: string
  cp_variantId :: string
  cp_quantity :: int
  unitPrice :: Money
  lineTotal :: Money

record BundlePriceResult =
  originalPrice :: Money
  bundlePrice :: Money
  savings :: Money
  savingsPercentage :: number
  componentPrices :: "ComponentPrice list"

text \<open>
  The two \<^verbatim>\<open>for\<close> loops fill \<^verbatim>\<open>componentPrices\<close> and add to \<^verbatim>\<open>originalPriceTotal\<close>;
  the state of a loop is that pair. \<^verbatim>\<open>continue\<close> leaves the state as it is.
\<close>

definition priceSelection_step ::
  "BundleDefinition \<Rightarrow> string \<Rightarrow> ComponentPrice list \<times> number \<Rightarrow> BundleSelection
     \<Rightarrow> ComponentPrice list \<times> number" where
  "priceSelection_step definition cc st selection =
     (case find (\<lambda>c. c_productId c = productId selection) (components definition) of
        None \<Rightarrow> st
      | Some component \<Rightarrow>
          (case find (\<lambda>v. variant_id v = variantId selection) (variants component) of
             None \<Rightarrow> st
           | Some variant \<Rightarrow>
               let unit = parseFloat (amount (price variant));
                   total = num_mul unit (Num (of_int (quantity selection)))
               in (fst st @ [\<lparr>cp_productId = productId selection,
                              cp_variantId = variantId selection,
                              cp_quantity = quantity selection,
                              unitPrice = price variant,
                              lineTotal = \<lparr>amount = toFixed2 total, currencyCode = cc\<rparr>\<rparr>],
                   num_add (snd st) total)))"

text \<open>
  \<^verbatim>\<open>component.variants.find((v) => v.id === component.defaultVariantId) ?? component.variants[0]\<close>:
  no variant has the id \<^verbatim>\<open>undefined\<close>.
\<close>

definition defaultVariantOf :: "BundleComponent \<Rightarrow> BundleComponentVariant option" where
  "defaultVariantOf component =
     (case (case defaultVariantId component of
              None \<Rightarrow> None
            | Some dv \<Rightarrow> find (\<lambda>v. variant_id v = dv) (variants component)) of
        Some v \<Rightarrow> Some v
      | None \<Rightarrow> (case variants component of [] \<Rightarrow> None | v # _ \<Rightarrow> Some v))"

definition priceDefault_step ::
  "string \<Rightarrow> ComponentPrice list \<times> number \<Rightarrow> BundleComponent \<Rightarrow> ComponentPrice list \<times> number" where
  "priceDefault_step cc st component =
     (case defaultVariantOf component of
        None \<Rightarrow> st
      | Some variant \<Rightarrow>
          let unit = parseFloat (amount (price variant));
              total = num_mul unit (Num (of_int (c_quantity component)))
          in (fst st @ [\<lparr>cp_productId = c_productId component,
                         cp_variantId = variant_id variant,
                         cp_quantity = c_quantity component,
                         unitPrice = price variant,
                         lineTotal = \<lparr>amount = toFixed2 total, currencyCode = cc\<rparr>\<rparr>],
              num_add (snd st) total))"

definition priceComponents ::
  "BundleDefinition \<Rightarrow> BundleSelection list option \<Rightarrow> ComponentPrice list \<times> number" where
  "priceComponents definition selected =
     (let cc = (case p_currencyCode (pricing definition) of Some c \<Rightarrow> c | None \<Rightarrow> ''USD'') in
      case selected of
        Some ss \<Rightarrow>
          if length ss > 0 then foldl (priceSelection_step definition cc) ([], Num 0) ss
          else foldl (priceDefault_step cc) ([], Num 0) (components definition)
      | None \<Rightarrow> foldl (priceDefault_step cc) ([], Num 0) (components definition))"

text \<open>The \<^verbatim>\<open>switch\<close> on the discount type, before the floor at 0.\<close>

definition discountedAmount :: "BundlePricing \<Rightarrow> number \<Rightarrow> number" where
  "discountedAmount p originalPriceTotal =
     (case discountType p of
        percentage \<Rightarrow>
          let discountMultiplier =
                num_sub (Num 1)
                  (num_div (case discountValue p of Some v \<Rightarrow> v | None \<Rightarrow> Num 0) (Num 100))
          in num_mul originalPriceTotal discountMultiplier
      | fixed_amount \<Rightarrow>
          num_sub originalPriceTotal (case discountValue p of Some v \<Rightarrow> v | None \<Rightarrow> Num 0)
      | fixed_price \<Rightarrow>
          (case discountValue p of Some v \<Rightarrow> v | None \<Rightarrow> originalPriceTotal)
      | custom \<Rightarrow>
          (case p_bundlePrice p of
             Some m \<Rightarrow> parseFloat (amount m)
           | None \<Rightarrow> originalPriceTotal))"

text \<open>
  The three numbers computed from the total: \<^verbatim>\<open>bundlePriceAmount\<close> (after
  \<^verbatim>\<open>Math.max(0, ...)\<close>), \<^verbatim>\<open>savingsAmount\<close> and \<^verbatim>\<open>savingsPercentage\<close>.
\<close>

definition bundlePriceAmount :: "BundlePricing \<Rightarrow> number \<Rightarrow> number" where
  "bundlePriceAmount p originalPriceTotal = Math_max (Num 0) (discountedAmount p originalPriceTotal)"

definition savingsAmount :: "BundlePricing \<Rightarrow> number \<Rightarrow> number" where
  "savingsAmount p originalPriceTotal =
     num_sub originalPriceTotal (bundlePriceAmount p originalPriceTotal)"

definition savingsPercentageOf :: "BundlePricing \<Rightarrow> number \<Rightarrow> number" where
  "savingsPercentageOf p originalPriceTotal =
     (if num_gt originalPriceTotal (Num 0)
      then num_mul (num_div (savingsAmount p originalPriceTotal) originalPriceTotal) (Num 100)
      else Num 0)"

definition calculatePriceFromDefinition ::
  "BundleDefinition \<Rightarrow> BundleSelection list option \<Rightarrow> BundlePriceResult" where
  "calculatePriceFromDefinition definition selected =
     (let cc = (case p_currencyCode (pricing definition) of Some c \<Rightarrow> c | None \<Rightarrow> ''USD'');
          loop = priceComponents definition selected;
          originalPriceTotal = snd loop
      in \<lparr>originalPrice = \<lparr>amount = toFixed2 originalPriceTotal, currencyCode = cc\<rparr>,
          bundlePrice =
            \<lparr>amount = toFixed2 (bundlePriceAmount (pricing definition) originalPriceTotal),
             currencyCode = cc\<rparr>,
          savings =
            \<lparr>amount = toFixed2 (savingsAmount (pricing definition) originalPriceTotal),
             currencyCode = cc\<rparr>,
          savingsPercentage = savingsPercentageOf (pricing definition) originalPriceTotal,
          componentPrices = fst loop\<rparr>)"

section \<open>Inventory aggregator (checkInventory.ts)\<close>

text \<open>
  \<^verbatim>\<open>quantityAvailable\<close> as the answer of the Storefront API carries it. The answer is
  untyped JSON (\<^verbatim>\<open>await response.json()\<close>) and the inventory query always selects the
  field: for a variant whose quantity the API does not disclose it is \<^verbatim>\<open>null\<close>, otherwise
  a number; it is \<^verbatim>\<open>undefined\<close> only when the node itself is missing (or lacks the field).
  The source copies the value into the component inventory as it is.
\<close>

datatype json_number = Undefined | Null | Number int

text \<open>
  Where JavaScript converts \<^verbatim>\<open>null\<close> to a number (in \<^verbatim>\<open>null <= 5\<close> and in \<^verbatim>\<open>null / q\<close>) it is 0.
  The strict comparisons \<^verbatim>\<open>null === undefined\<close> and \<^verbatim>\<open>null === 0\<close> do not convert and
  are false.
\<close>

definition null_as_number :: int where
  "null_as_number = 0"

record ComponentInventory =
  ci_productId :: string
  ci_variantId :: string
  status :: AvailabilityStatus
  ci_quantityAvailable :: json_number
  maxAddable :: "int option"

record BundleInventory =
  inv_available :: bool
  inv_status :: AvailabilityStatus
  inv_maxQuantity :: int
  limitingComponent :: "ComponentInventory option"
  inv_components :: "ComponentInventory list"
  cachedAt :: "string option"

record BundleBridgeConfig =
  apiUrl :: "string option"
  apiKey :: "string option"
  storeDomain :: string
  storefrontAccessToken :: "string option"
  apiVersion :: "string option"

text \<open>
  What the Storefront API answered to the inventory query. The request itself is outside
  the model: the function below takes the response it awaited as an argument. A node of
  the response is \<^verbatim>\<open>null\<close> (\<open>None\<close>) for an id that is not a variant. The source reads
  \<^verbatim>\<open>availableForSale\<close> through \<^verbatim>\<open>?? false\<close>, which treats \<^verbatim>\<open>null\<close> and \<^verbatim>\<open>undefined\<close> alike
  (both \<open>None\<close> here); it reads \<^verbatim>\<open>quantityAvailable\<close> as it comes.
\<close>

record InventoryNode =
  node_id :: string
  node_availableForSale :: "bool option"
  node_quantityAvailable :: json_number

record InventoryResponse =
  resp_ok :: bool
  resp_status :: int
  resp_errors :: "string option list option"
  resp_nodes :: "InventoryNode option list option"

definition LOW_STOCK_THRESHOLD :: int where
  "LOW_STOCK_THRESHOLD = 5"

definition getAvailabilityStatus :: "bool \<Rightarrow> json_number \<Rightarrow> AvailabilityStatus" where
  "getAvailabilityStatus availableForSale' quantityAvailable' =
     (if \<not> availableForSale' then out_of_stock
      else case quantityAvailable' of
        Undefined \<Rightarrow> available
      | Null \<Rightarrow> if null_as_number \<le> LOW_STOCK_THRESHOLD then limited else available
      | Number q \<Rightarrow>
          if q = 0 then out_of_stock
          else if q \<le> LOW_STOCK_THRESHOLD then limited
          else available)"

text \<open>\<^verbatim>\<open>minMaxQuantity\<close> starts at \<^verbatim>\<open>Infinity\<close> and is an integer after the first bound.\<close>

datatype bound = Infinity | Finite int

fun below :: "int \<Rightarrow> bound \<Rightarrow> bool" where
  "below n Infinity = True"
| "below n (Finite m) = (n < m)"

text \<open>
  \<^verbatim>\<open>data.data?.nodes?.find((n) => n?.id === check.variantId)\<close>: the first node with the
  id, if the response has nodes at all; a \<^verbatim>\<open>null\<close> node has no id.
\<close>

definition findNode :: "InventoryNode option list option \<Rightarrow> string \<Rightarrow> InventoryNode option" where
  "findNode nodes vid =
     (case nodes of
        None \<Rightarrow> None
      | Some ns \<Rightarrow>
          (case find (\<lambda>n. case n of None \<Rightarrow> False | Some v \<Rightarrow> node_id v = vid) ns of
             None \<Rightarrow> None
           | Some n \<Rightarrow> n))"

text \<open>\<^verbatim>\<open>variant?.availableForSale ?? false\<close> and \<^verbatim>\<open>variant?.quantityAvailable\<close>.\<close>

definition nodeAvailableForSale :: "InventoryNode option \<Rightarrow> bool" where
  "nodeAvailableForSale variant =
     (case variant of
        None \<Rightarrow> False
      | Some v \<Rightarrow> (case node_availableForSale v of None \<Rightarrow> False | Some b \<Rightarrow> b))"

definition nodeQuantityAvailable :: "InventoryNode option \<Rightarrow> json_number" where
  "nodeQuantityAvailable variant =
     (case variant of None \<Rightarrow> Undefined | Some v \<Rightarrow> node_quantityAvailable v)"

text \<open>
  The body of the loop up to \<^verbatim>\<open>components.push\<close>: the inventory of one checked variant.
  \<^verbatim>\<open>Math.floor(quantityAvailable / check.quantity)\<close> on integers with a positive divisor
  is the integer division \<open>div\<close>, which rounds down. The guard
  \<^verbatim>\<open>quantityAvailable !== undefined\<close> lets \<^verbatim>\<open>null\<close> through, and the division converts it.
\<close>

definition componentInventoryOf ::
  "InventoryNode option list option \<Rightarrow> BundleSelection \<Rightarrow> ComponentInventory" where
  "componentInventoryOf nodes check =
     (let variant = findNode nodes (variantId check);
          availableForSale' = nodeAvailableForSale variant;
          quantityAvailable' = nodeQuantityAvailable variant;
          status' = getAvailabilityStatus availableForSale' quantityAvailable';
          maxAddable' =
            (case quantityAvailable' of
               Undefined \<Rightarrow> None
             | Null \<Rightarrow>
                 if quantity check > 0 then Some (null_as_number div quantity check) else None
             | Number q \<Rightarrow> if quantity check > 0 then Some (q div quantity check) else None)
      in \<lparr>ci_productId = productId check,
          ci_variantId = variantId check,
          status = status',
          ci_quantityAvailable = quantityAvailable',
          maxAddable = maxAddable'\<rparr>)"

text \<open>
  The state of the loop: \<^verbatim>\<open>components\<close>, \<^verbatim>\<open>minMaxQuantity\<close>, \<^verbatim>\<open>limitingComponent\<close>.
\<close>

definition inventory_step ::
  "InventoryNode option list option
     \<Rightarrow> ComponentInventory list \<times> bound \<times> ComponentInventory option
     \<Rightarrow> BundleSelection
     \<Rightarrow> ComponentInventory list \<times> bound \<times> ComponentInventory option" where
  "inventory_step nodes st check =
     (let componentInventory = componentInventoryOf nodes check;
          components' = fst st @ [componentInventory]
      in case maxAddable componentInventory of
           None \<Rightarrow> (components', snd st)
         | Some m \<Rightarrow>
             if below m (fst (snd st)) then (components', Finite m, Some componentInventory)
             else (components', snd st))"

definition aggregateInventory ::
  "InventoryNode option list option \<Rightarrow> BundleSelection list \<Rightarrow> string \<Rightarrow> BundleInventory" where
  "aggregateInventory nodes variantsToCheck now =
     (let loop = foldl (inventory_step nodes) ([], Infinity, None) variantsToCheck;
          components' = fst loop;
          minMaxQuantity = fst (snd loop);
          limitingComponent' = snd (snd loop);
          hasOutOfStock = list_ex (\<lambda>c. status c = out_of_stock) components';
          hasLimited = list_ex (\<lambda>c. status c = limited) components';
          overallStatus =
            (if hasOutOfStock then out_of_stock else if hasLimited then limited else available)
      in \<lparr>inv_available = \<not> hasOutOfStock,
          inv_status = overallStatus,
          inv_maxQuantity = (case minMaxQuantity of Infinity \<Rightarrow> 99 | Finite m \<Rightarrow> m),
          limitingComponent = (if hasOutOfStock \<or> hasLimited then limitingComponent' else None),
          inv_components = components',
          cachedAt = Some now\<rparr>)"

text \<open>\<^verbatim>\<open>data.errors[0]?.message ?? 'GraphQL error'\<close>\<close>

definition firstErrorMessage :: "string option list \<Rightarrow> string" where
  "firstErrorMessage errs =
     (case errs of
        [] \<Rightarrow> ''GraphQL error''
      | e # _ \<Rightarrow> (case e of None \<Rightarrow> ''GraphQL error'' | Some m \<Rightarrow> m))"

definition checkInventoryFromStorefrontApi ::
  "BundleDefinition \<Rightarrow> BundleBridgeConfig \<Rightarrow> BundleSelection list option
     \<Rightarrow> InventoryResponse \<Rightarrow> string \<Rightarrow> js_error + BundleInventory" where
  "checkInventoryFromStorefrontApi definition config selected response now =
     (if storefrontAccessToken config = None \<or> storefrontAccessToken config = Some []
      then Inl (BundleBridgeError ''INVALID_CONFIG''
                  ''storefrontAccessToken is required when not using hosted backend'')
      else case componentsToAdd definition selected of
        Inl e \<Rightarrow> Inl e
      | Inr variantsToCheck \<Rightarrow>
          if \<not> resp_ok response
          then Inl (BundleBridgeError ''NETWORK_ERROR''
                      (''Storefront API error: '' @ String_int (resp_status response)))
          else (case resp_errors response of
                  Some errs \<Rightarrow> Inl (BundleBridgeError ''UNKNOWN_ERROR'' (firstErrorMessage errs))
                | None \<Rightarrow> Inr (aggregateInventory (resp_nodes response) variantsToCheck now)))"

section \<open>Numbers (doubles)\<close>

text \<open>
  The resolver compares a computed number with its rounding, and there the result
  depends on how JavaScript computes: every arithmetic operation and every
  \<^verbatim>\<open>parseFloat\<close> yields the IEEE 754 double nearest to the exact result, ties going to the
  even significand. \<open>to_double\<close> is that rounding: a double has a significand of 53
  bits, so in the binade \<open>[2^e, 2^(e+1))\<close> the doubles are the multiples of \<open>2^(e-52)\<close>;
  below \<open>2^-1022\<close> (subnormal numbers) the spacing stays \<open>2^-1074\<close>. Overflow to an
  infinity (magnitudes of \<open>2^1024\<close> and above) is outside the model.
\<close>

definition round_even :: "real \<Rightarrow> int" where
  "round_even y =
     (let n = \<lfloor>y\<rfloor>; f = y - of_int n
      in if f < 1 / 2 then n else if 1 / 2 < f then n + 1 else if even n then n else n + 1)"

text \<open>The exponent \<open>e\<close> of the binade of a positive number, kept within \<open>-1022 .. 1023\<close>.\<close>

function binade_up :: "real \<Rightarrow> int \<Rightarrow> int" where
  "binade_up x e = (if x < 2 \<or> 1023 \<le> e then e else binade_up (x / 2) (e + 1))"
  by pat_completeness auto
termination
  by (relation "measure (\<lambda>(x, e). nat (1023 - e))") auto

function binade_down :: "real \<Rightarrow> int \<Rightarrow> int" where
  "binade_down x e = (if 1 \<le> x \<or> e \<le> - 1022 then e else binade_down (2 * x) (e - 1))"
  by pat_completeness auto
termination
  by (relation "measure (\<lambda>(x, e). nat (e + 1022))") auto

declare binade_up.simps [simp del] binade_down.simps [simp del]

definition binade :: "real \<Rightarrow> int" where
  "binade x = (if 1 \<le> x then binade_up x 0 else binade_down x 0)"

definition pow2 :: "int \<Rightarrow> real" where
  "pow2 e = (if e < 0 then 1 / 2 ^ nat (- e) else 2 ^ nat e)"

definition to_double :: "real \<Rightarrow> real" where
  "to_double x =
     (if x = 0 then 0
      else let u = pow2 (binade \<bar>x\<bar> - 52) in of_int (round_even (x / u)) * u)"

fun dbl_add :: "number \<Rightarrow> number \<Rightarrow> number" where
  "dbl_add (Num a) (Num b) = Num (to_double (a + b))"
| "dbl_add _ _ = NaN"

fun dbl_sub :: "number \<Rightarrow> number \<Rightarrow> number" where
  "dbl_sub (Num a) (Num b) = Num (to_double (a - b))"
| "dbl_sub _ _ = NaN"

fun dbl_mul :: "number \<Rightarrow> number \<Rightarrow> number" where
  "dbl_mul (Num a) (Num b) = Num (to_double (a * b))"
| "dbl_mul _ _ = NaN"

text \<open>The resolver divides by a total it has tested to be positive only.\<close>

fun dbl_div :: "number \<Rightarrow> number \<Rightarrow> number" where
  "dbl_div (Num a) (Num b) = (if b = 0 then NaN else Num (to_double (a / b)))"
| "dbl_div _ _ = NaN"

text \<open>\<^verbatim>\<open>parseFloat\<close> with its result rounded to a double.\<close>

definition parseFloat64 :: "string \<Rightarrow> number" where
  "parseFloat64 s = (case parseFloat s of NaN \<Rightarrow> NaN | Num x \<Rightarrow> Num (to_double x))"

section \<open>Bundle resolver (resolveBundle.ts)\<close>

record StorefrontProductRef =
  ref_id :: string
  ref_title :: string
  ref_handle :: string
  ref_featuredImage :: "ProductImage option"

record StorefrontComponentVariant =
  scv_id :: string
  scv_title :: string
  scv_sku :: "string option"
  scv_availableForSale :: bool
  scv_quantityAvailable :: "int option"
  scv_price :: Money
  scv_compareAtPrice :: "Money option"
  scv_image :: "ProductImage option"
  scv_selectedOptions :: "(string \<times> string) list option"

record StorefrontBundleComponent =
  bc_product :: StorefrontProductRef
  bc_variant :: StorefrontComponentVariant
  bc_quantity :: int

record StorefrontVariant =
  sv_id :: string
  sv_title :: string
  sv_price :: Money
  sv_compareAtPrice :: "Money option"
  sv_availableForSale :: bool
  sv_bundleComponents :: "StorefrontBundleComponent list option"

record StorefrontProduct =
  sp_id :: string
  sp_title :: string
  sp_handle :: string
  sp_description :: "string option"
  sp_availableForSale :: bool
  sp_featuredImage :: "ProductImage option"
  sp_variants :: "StorefrontVariant list"

definition toBundleComponent :: "StorefrontBundleComponent \<Rightarrow> BundleComponent" where
  "toBundleComponent bc =
     \<lparr>c_productId = ref_id (bc_product bc),
      productTitle = ref_title (bc_product bc),
      productHandle = ref_handle (bc_product bc),
      productImage = ref_featuredImage (bc_product bc),
      variants =
        [\<lparr>variant_id = scv_id (bc_variant bc),
          variant_title = scv_title (bc_variant bc),
          price = scv_price (bc_variant bc),
          compareAtPrice = scv_compareAtPrice (bc_variant bc),
          sku = scv_sku (bc_variant bc),
          availableForSale = scv_availableForSale (bc_variant bc),
          quantityAvailable = scv_quantityAvailable (bc_variant bc),
          image = scv_image (bc_variant bc),
          selectedOptions = scv_selectedOptions (bc_variant bc)\<rparr>],
      defaultVariantId = Some (scv_id (bc_variant bc)),
      c_quantity = bc_quantity bc,
      allowQuantitySelection = None,
      minQuantity = None,
      maxQuantity = None,
      required = Some True,
      priceOverride = None\<rparr>"

text \<open>
  The numbers of \<^verbatim>\<open>parseStorefrontResponse\<close>, computed in doubles. Every component built
  above has exactly one variant, which \<^verbatim>\<open>comp.variants[0]!\<close> reads. A quantity is an
  integer that a double holds (below \<open>2^53\<close> in magnitude).
\<close>

definition originalPriceAmountOf :: "BundleComponent list \<Rightarrow> number" where
  "originalPriceAmountOf comps =
     foldl (\<lambda>sum comp.
              dbl_add sum
                (dbl_mul (parseFloat64 (amount (price (hd (variants comp)))))
                   (Num (of_int (c_quantity comp)))))
       (Num 0) comps"

definition resolvedSavingsAmount :: "StorefrontVariant \<Rightarrow> BundleComponent list \<Rightarrow> number" where
  "resolvedSavingsAmount bundleVariant comps =
     dbl_sub (originalPriceAmountOf comps) (parseFloat64 (amount (sv_price bundleVariant)))"

definition resolvedSavingsPercentage :: "StorefrontVariant \<Rightarrow> BundleComponent list \<Rightarrow> number" where
  "resolvedSavingsPercentage bundleVariant comps =
     (if num_gt (originalPriceAmountOf comps) (Num 0)
      then dbl_mul (dbl_div (resolvedSavingsAmount bundleVariant comps) (originalPriceAmountOf comps))
             (Num 100)
      else Num 0)"

definition inferDiscountType :: "number \<Rightarrow> BundleDiscountType" where
  "inferDiscountType savingsPercentage' =
     (if num_eq savingsPercentage' (Math_round savingsPercentage') then percentage else fixed_amount)"

definition parseStorefrontResponse :: "StorefrontProduct \<Rightarrow> BundleDefinition option" where
  "parseStorefrontResponse product =
     (case find (\<lambda>v. case sv_bundleComponents v of None \<Rightarrow> False | Some ns \<Rightarrow> length ns > 0)
             (sp_variants product) of
        None \<Rightarrow> None
      | Some bundleVariant \<Rightarrow>
          (case sv_bundleComponents bundleVariant of
             None \<Rightarrow> None
           | Some ns \<Rightarrow>
               let comps = map toBundleComponent ns;
                   originalPriceAmount = originalPriceAmountOf comps;
                   savingsAmount' = resolvedSavingsAmount bundleVariant comps;
                   savingsPercentage' = resolvedSavingsPercentage bundleVariant comps;
                   discountType' = inferDiscountType savingsPercentage';
                   cc = currencyCode (sv_price bundleVariant)
               in Some
                    \<lparr>bundle_id = sp_id product,
                     title = sp_title product,
                     handle = sp_handle product,
                     description = sp_description product,
                     bundleType = fixed,
                     components = comps,
                     pricing =
                       \<lparr>discountType = discountType',
                        discountValue =
                          Some (if discountType' = percentage then savingsPercentage'
                                else savingsAmount'),
                        p_currencyCode = Some cc,
                        p_originalPrice =
                          Some \<lparr>amount = toFixed2 originalPriceAmount, currencyCode = cc\<rparr>,
                        p_bundlePrice = Some (sv_price bundleVariant),
                        p_savings = Some \<lparr>amount = toFixed2 savingsAmount', currencyCode = cc\<rparr>,
                        p_savingsPercentage = Some savingsPercentage'\<rparr>,
                     minSelections = None,
                     maxSelections = None,
                     featuredImage = sp_featuredImage product,
                     bundle_availableForSale = sp_availableForSale product,
                     bundle_variantId = Some (sv_id bundleVariant)\<rparr>))"

section \<open>Resolved components, as the specification words them\<close>

text \<open>
  The specification resolves the component list as "the selections when non-empty, else
  the definition's defaults", the default of a component being its default variant id
  or, without one, its first variant. \<open>resolvedComponents\<close> is that list;
  \<open>hasDefaults\<close> says that every component has such a default.
\<close>

definition selectionsGiven :: "BundleSelection list option \<Rightarrow> bool" where
  "selectionsGiven selected = (case selected of None \<Rightarrow> False | Some ss \<Rightarrow> ss \<noteq> [])"

definition hasDefaults :: "BundleDefinition \<Rightarrow> bool" where
  "hasDefaults definition =
     list_all (\<lambda>c. defaultVariantId c \<noteq> None \<or> variants c \<noteq> []) (components definition)"

definition resolvedComponents ::
  "BundleDefinition \<Rightarrow> BundleSelection list option \<Rightarrow> BundleSelection list" where
  "resolvedComponents definition selected =
     (if selectionsGiven selected then the selected
      else map (\<lambda>c. \<lparr>productId = c_productId c,
                      variantId = (case defaultVariantId c of
                                     Some v \<Rightarrow> v
                                   | None \<Rightarrow> variant_id (hd (variants c))),
                      quantity = c_quantity c\<rparr>)
             (components definition))"

text \<open>The first attribute of a line with a given key, as \<^verbatim>\<open>attributes.find\<close> reads it.\<close>

definition attributeOf :: "string \<Rightarrow> 'a HasAttributes_scheme \<Rightarrow> string option" where
  "attributeOf k line = map_option attr_value (find (\<lambda>a. attr_key a = k) (attributes line))"

section \<open>Fixtures of the test suite\<close>

definition test_variant :: "string \<Rightarrow> string \<Rightarrow> BundleComponentVariant" where
  "test_variant vid amt =
     \<lparr>variant_id = vid, variant_title = ''Default'',
      price = \<lparr>amount = amt, currencyCode = ''USD''\<rparr>,
      compareAtPrice = None, sku = None, availableForSale = True, quantityAvailable = None,
      image = None, selectedOptions = None\<rparr>"

definition test_component ::
  "string \<Rightarrow> string \<Rightarrow> string \<Rightarrow> BundleComponentVariant list \<Rightarrow> string option \<Rightarrow> int
     \<Rightarrow> BundleComponent" where
  "test_component pid ptitle phandle vs dv q =
     \<lparr>c_productId = pid, productTitle = ptitle, productHandle = phandle, productImage = None,
      variants = vs, defaultVariantId = dv, c_quantity = q, allowQuantitySelection = None,
      minQuantity = None, maxQuantity = None, required = None, priceOverride = None\<rparr>"

definition test_pricing :: "BundleDiscountType \<Rightarrow> number option \<Rightarrow> BundlePricing" where
  "test_pricing t v =
     \<lparr>discountType = t, discountValue = v, p_currencyCode = None, p_originalPrice = None,
      p_bundlePrice = None, p_savings = None, p_savingsPercentage = None\<rparr>"

text \<open>\<^verbatim>\<open>fixedBundle\<close> of \<^verbatim>\<open>buildCartMutation.test.ts\<close>.\<close>

definition test_fixedBundle :: BundleDefinition where
  "test_fixedBundle =
     \<lparr>bundle_id = ''gid://shopify/Product/100'', title = ''Test Bundle'', handle = ''test-bundle'',
      description = None, bundleType = fixed,
      components =
        [test_component ''p1'' ''Product 1'' ''product-1'' [test_variant ''v1'' ''10.00''] (Some ''v1'') 2,
         test_component ''p2'' ''Product 2'' ''product-2'' [test_variant ''v2'' ''15.00''] (Some ''v2'') 1],
      pricing = test_pricing percentage (Some (Num 10)),
      minSelections = None, maxSelections = None, featuredImage = None,
      bundle_availableForSale = True, bundle_variantId = None\<rparr>"

text \<open>\<^verbatim>\<open>mixAndMatchBundle\<close> of \<^verbatim>\<open>validation.test.ts\<close>.\<close>

definition test_mixAndMatchBundle :: BundleDefinition where
  "test_mixAndMatchBundle =
     \<lparr>bundle_id = ''gid://shopify/Product/2'', title = ''Mix Bundle'', handle = ''mix'',
      description = None, bundleType = mix_and_match,
      components =
        [test_component ''p1'' ''Product 1'' ''product-1'' [test_variant ''v1'' ''10.00''] None 1,
         test_component ''p2'' ''Product 2'' ''product-2'' [test_variant ''v2'' ''15.00''] None 1],
      pricing = test_pricing percentage (Some (Num 10)),
      minSelections = Some 2, maxSelections = Some 4, featuredImage = None,
      bundle_availableForSale = True, bundle_variantId = None\<rparr>"

definition test_input :: "BundleSelection list option \<Rightarrow> int option \<Rightarrow> AddBundleInput" where
  "test_input selected q =
     \<lparr>bundleId = ''gid://shopify/Product/100'', selectedComponents = selected, in_quantity = q,
      cartId = None, customAttributes = None\<rparr>"

text \<open>
  \<^verbatim>\<open>groupCartLinesByBundle(buildBundleCartLines(definition, input))\<close>, the composition the
  round trip is about.
\<close>

definition regroupBuiltLines ::
  "BundleDefinition \<Rightarrow> AddBundleInput \<Rightarrow> js_error + (string, CartLineInput BundleGroup) js_map" where
  "regroupBuiltLines definition input =
     (case buildBundleCartLines definition input of
        Inl e \<Rightarrow> Inl e
      | Inr ls \<Rightarrow> Inr (groupCartLinesByBundle ls))"

text \<open>A bundle whose only component has neither a default variant id nor a variant.\<close>

definition test_noVariantBundle :: BundleDefinition where
  "test_noVariantBundle =
     test_fixedBundle\<lparr>components := [test_component ''p1'' ''Product 1'' ''product-1'' [] None 1]\<rparr>"

text \<open>An input whose custom attributes use the reserved key \<^verbatim>\<open>_bundle_product_id\<close>.\<close>

definition test_overrideInput :: AddBundleInput where
  "test_overrideInput = (test_input None None)\<lparr>customAttributes := Some [(''_bundle_product_id'', ''other'')]\<rparr>"

section \<open>Selections, as the specification words them\<close>

definition totalQuantity :: "BundleSelection list \<Rightarrow> int" where
  "totalQuantity selections = sum_list (map quantity selections)"

text \<open>
  An entry that "references an existing component and one of that component's variants
  and respects the component's own min/max quantity bounds". The component of an entry
  is the first one with its product id, as \<^verbatim>\<open>find\<close> reads it.
\<close>

definition acceptableSelection :: "BundleDefinition \<Rightarrow> BundleSelection \<Rightarrow> bool" where
  "acceptableSelection definition selection =
     (case find (\<lambda>c. c_productId c = productId selection) (components definition) of
        None \<Rightarrow> False
      | Some component \<Rightarrow>
          list_ex (\<lambda>v. variant_id v = variantId selection) (variants component)
          \<and> (case minQuantity component of None \<Rightarrow> True | Some n \<Rightarrow> n \<le> quantity selection)
          \<and> (case maxQuantity component of None \<Rightarrow> True | Some n \<Rightarrow> quantity selection \<le> n))"

text \<open>The mix-and-match bundle of the test suite with both selection bounds set to 0.\<close>

definition test_zeroBoundsBundle :: BundleDefinition where
  "test_zeroBoundsBundle = test_mixAndMatchBundle\<lparr>minSelections := Some 0, maxSelections := Some 0\<rparr>"

section \<open>Priced selections, as the specification words them\<close>

text \<open>
  The variant a selection stands for: the variant with the selected id of the first
  component with the selected product id; \<open>None\<close> when the product id matches no
  component or the variant id matches no variant of the matched component.
\<close>

definition matchedVariant :: "BundleDefinition \<Rightarrow> BundleSelection \<Rightarrow> BundleComponentVariant option" where
  "matchedVariant definition selection =
     (case find (\<lambda>c. c_productId c = productId selection) (components definition) of
        None \<Rightarrow> None
      | Some component \<Rightarrow> find (\<lambda>v. variant_id v = variantId selection) (variants component))"

definition selectionTotal :: "BundleDefinition \<Rightarrow> BundleSelection \<Rightarrow> number" where
  "selectionTotal definition selection =
     num_mul (parseFloat (amount (price (the (matchedVariant definition selection)))))
       (Num (of_int (quantity selection)))"

definition selectionPrice :: "BundleDefinition \<Rightarrow> string \<Rightarrow> BundleSelection \<Rightarrow> ComponentPrice" where
  "selectionPrice definition cc selection =
     \<lparr>cp_productId = productId selection,
      cp_variantId = variantId selection,
      cp_quantity = quantity selection,
      unitPrice = price (the (matchedVariant definition selection)),
      lineTotal = \<lparr>amount = toFixed2 (selectionTotal definition selection), currencyCode = cc\<rparr>\<rparr>"

definition currencyOf :: "BundleDefinition \<Rightarrow> string" where
  "currencyOf definition = (case p_currencyCode (pricing definition) of Some c \<Rightarrow> c | None \<Rightarrow> ''USD'')"

text \<open>The fixed bundle of the test suite with other pricing rules.\<close>

definition test_fixedAmountBundle :: BundleDefinition where
  "test_fixedAmountBundle = test_fixedBundle\<lparr>pricing := test_pricing fixed_amount (Some (Num 5))\<rparr>"

definition test_negativeFixedPriceBundle :: BundleDefinition where
  "test_negativeFixedPriceBundle = test_fixedBundle\<lparr>pricing := test_pricing fixed_price (Some (Num (- 5)))\<rparr>"

definition test_fixedPriceBundle :: BundleDefinition where
  "test_fixedPriceBundle = test_fixedBundle\<lparr>pricing := test_pricing fixed_price (Some (Num 20))\<rparr>"

section \<open>Inventory bounds, as the specification words them\<close>

text \<open>
  The bounds that the components define, their minimum, and the component that
  achieves it (the first one, when several do).
\<close>

definition definedBounds :: "ComponentInventory list \<Rightarrow> int list" where
  "definedBounds cs = List.map_filter maxAddable cs"

definition minBound :: "ComponentInventory list \<Rightarrow> int option" where
  "minBound cs = (if definedBounds cs = [] then None else Some (Min (set (definedBounds cs))))"

definition achievingComponent :: "ComponentInventory list \<Rightarrow> ComponentInventory option" where
  "achievingComponent cs =
     (case minBound cs of
        None \<Rightarrow> None
      | Some b \<Rightarrow> find (\<lambda>c. maxAddable c = Some b) cs)"

definition aggregateStatus :: "ComponentInventory list \<Rightarrow> AvailabilityStatus" where
  "aggregateStatus cs =
     (if list_ex (\<lambda>c. status c = out_of_stock) cs then out_of_stock
      else if list_ex (\<lambda>c. status c = limited) cs then limited
      else available)"

text \<open>
  The state of the inventory loop after it has pushed the components \<open>cs\<close>, in the
  words of the specification.
\<close>

definition loop_state ::
  "ComponentInventory list \<Rightarrow> ComponentInventory list \<times> bound \<times> ComponentInventory option" where
  "loop_state cs =
     (cs, (case minBound cs of None \<Rightarrow> Infinity | Some b \<Rightarrow> Finite b), achievingComponent cs)"

text \<open>A configuration with an access token, and answers of the Storefront API.\<close>

definition test_config :: BundleBridgeConfig where
  "test_config =
     \<lparr>apiUrl = None, apiKey = None, storeDomain = ''my-store.myshopify.com'',
      storefrontAccessToken = Some ''token'', apiVersion = None\<rparr>"

definition test_response :: "InventoryNode option list \<Rightarrow> InventoryResponse" where
  "test_response ns = \<lparr>resp_ok = True, resp_status = 200, resp_errors = None, resp_nodes = Some ns\<rparr>"

definition test_node :: "string \<Rightarrow> bool \<Rightarrow> json_number \<Rightarrow> InventoryNode option" where
  "test_node vid afs q = Some \<lparr>node_id = vid, node_availableForSale = Some afs, node_quantityAvailable = q\<rparr>"

text \<open>
  A storefront product whose variant lists two components, 10.00 x 2 and 15.00 x 1, and
  is sold at the given price.
\<close>

definition test_bundleComponent :: "string \<Rightarrow> string \<Rightarrow> string \<Rightarrow> int \<Rightarrow> StorefrontBundleComponent" where
  "test_bundleComponent pid vid amt q =
     \<lparr>bc_product = \<lparr>ref_id = pid, ref_title = ''Product'', ref_handle = ''product'',
                     ref_featuredImage = None\<rparr>,
      bc_variant = \<lparr>scv_id = vid, scv_title = ''Default'', scv_sku = None,
                     scv_availableForSale = True, scv_quantityAvailable = None,
                     scv_price = \<lparr>amount = amt, currencyCode = ''USD''\<rparr>,
                     scv_compareAtPrice = None, scv_image = None, scv_selectedOptions = None\<rparr>,
      bc_quantity = q\<rparr>"

definition test_productOf :: "StorefrontBundleComponent list \<Rightarrow> string \<Rightarrow> StorefrontProduct" where
  "test_productOf bcs bundlePriceAmt =
     \<lparr>sp_id = ''gid://shopify/Product/100'', sp_title = ''Test Bundle'', sp_handle = ''test-bundle'',
      sp_description = None, sp_availableForSale = True, sp_featuredImage = None,
      sp_variants =
        [\<lparr>sv_id = ''gid://shopify/ProductVariant/1'', sv_title = ''Default'',
          sv_price = \<lparr>amount = bundlePriceAmt, currencyCode = ''USD''\<rparr>,
          sv_compareAtPrice = None, sv_availableForSale = True,
          sv_bundleComponents = Some bcs\<rparr>]\<rparr>"

definition test_product :: "string \<Rightarrow> StorefrontProduct" where
  "test_product bundlePriceAmt =
     test_productOf [test_bundleComponent ''p1'' ''v1'' ''10.00'' 2,
                     test_bundleComponent ''p2'' ''v2'' ''15.00'' 1] bundlePriceAmt"

text \<open>A storefront product with one component worth 100.00, sold at the given price.\<close>

definition test_product100 :: "string \<Rightarrow> StorefrontProduct" where
  "test_product100 bundlePriceAmt =
     test_productOf [test_bundleComponent ''p1'' ''v1'' ''100.00'' 1] bundlePriceAmt"

section \<open>Helper lemmas\<close>

lemmas fixture_defs = test_fixedBundle_def test_component_def test_variant_def test_pricing_def
  test_input_def test_noVariantBundle_def test_overrideInput_def test_mixAndMatchBundle_def
  test_zeroBoundsBundle_def test_fixedAmountBundle_def test_negativeFixedPriceBundle_def
  test_fixedPriceBundle_def test_config_def test_response_def test_node_def
  test_bundleComponent_def test_product_def test_productOf_def test_product100_def

lemmas attribute_key_defs = BUNDLE_ATTRIBUTES_bundleParent_def BUNDLE_ATTRIBUTES_bundleProductId_def
  BUNDLE_ATTRIBUTES_componentIndex_def BUNDLE_ATTRIBUTES_totalComponents_def
  BUNDLE_ATTRIBUTES_componentProductId_def

lemmas build_defs = buildBundleCartLines_def componentsToAdd_def defaultVariantIdOf_def
  bundleLine_def buildBundleAttributes_def customAttributeEntries_def

subsection \<open>Decimal strings\<close>

lemma digit_val_digit_char: "d < 10 \<Longrightarrow> digit_val (digit_char d) = d"
proof -
  assume "d < 10"
  then have "d \<in> {0, 1, 2, 3, 4, 5, 6, 7, 8, 9}" by auto
  then show ?thesis
    by (auto simp: digit_val_def digit_char_def)
qed

lemma digits_val_snoc: "digits_val (s @ [c]) = 10 * digits_val s + digit_val c"
  by (simp add: digits_val_def)

lemma digits_val_String_nat: "digits_val (String_nat n) = n"
proof (induction n rule: String_nat.induct)
  case (1 n)
  show ?case
  proof (cases "n < 10")
    case True
    then show ?thesis
      by (subst String_nat.simps) (simp add: digits_val_def digit_val_digit_char)
  next
    case False
    with 1 have "digits_val (String_nat (n div 10)) = n div 10" by simp
    with False show ?thesis
      by (subst String_nat.simps) (simp add: digits_val_snoc digit_val_digit_char)
  qed
qed

lemma String_nat_inj: "String_nat m = String_nat n \<Longrightarrow> m = n"
  by (metis digits_val_String_nat)

subsection \<open>Resolving the components\<close>

lemma defaultComponents_ok:
  "list_all (\<lambda>c. defaultVariantId c \<noteq> None \<or> variants c \<noteq> []) cs \<Longrightarrow>
   defaultComponents cs =
     Inr (map (\<lambda>c. \<lparr>productId = c_productId c,
                     variantId = (case defaultVariantId c of
                                    Some v \<Rightarrow> v
                                  | None \<Rightarrow> variant_id (hd (variants c))),
                     quantity = c_quantity c\<rparr>) cs)"
  by (induction cs) (auto simp: defaultVariantIdOf_def split: option.splits list.splits)

lemma defaultComponents_TypeError:
  "\<not> list_all (\<lambda>c. defaultVariantId c \<noteq> None \<or> variants c \<noteq> []) cs \<Longrightarrow>
   defaultComponents cs = Inl TypeError"
  by (induction cs) (auto simp: defaultVariantIdOf_def split: option.splits list.splits sum.splits)

lemma componentsToAdd_resolved:
  "selectionsGiven selected \<or> hasDefaults definition \<Longrightarrow>
   componentsToAdd definition selected = Inr (resolvedComponents definition selected)"
  by (auto simp: componentsToAdd_def resolvedComponents_def selectionsGiven_def hasDefaults_def
        defaultComponents_ok map_idI split: option.splits)

lemma componentsToAdd_TypeError:
  "\<not> selectionsGiven selected \<Longrightarrow> \<not> hasDefaults definition \<Longrightarrow>
   componentsToAdd definition selected = Inl TypeError"
  by (auto simp: componentsToAdd_def selectionsGiven_def hasDefaults_def
        defaultComponents_TypeError split: option.splits)

subsection \<open>Built lines\<close>

lemma attribute_keys_distinct:
  "BUNDLE_ATTRIBUTES_bundleParent \<noteq> BUNDLE_ATTRIBUTES_bundleProductId"
  "BUNDLE_ATTRIBUTES_bundleParent \<noteq> BUNDLE_ATTRIBUTES_componentIndex"
  "BUNDLE_ATTRIBUTES_bundleParent \<noteq> BUNDLE_ATTRIBUTES_totalComponents"
  "BUNDLE_ATTRIBUTES_bundleProductId \<noteq> BUNDLE_ATTRIBUTES_componentIndex"
  "BUNDLE_ATTRIBUTES_bundleProductId \<noteq> BUNDLE_ATTRIBUTES_totalComponents"
  "BUNDLE_ATTRIBUTES_componentIndex \<noteq> BUNDLE_ATTRIBUTES_totalComponents"
  "BUNDLE_ATTRIBUTES_bundleProductId \<noteq> BUNDLE_ATTRIBUTES_bundleParent"
  "BUNDLE_ATTRIBUTES_componentIndex \<noteq> BUNDLE_ATTRIBUTES_bundleParent"
  "BUNDLE_ATTRIBUTES_totalComponents \<noteq> BUNDLE_ATTRIBUTES_bundleParent"
  "BUNDLE_ATTRIBUTES_componentIndex \<noteq> BUNDLE_ATTRIBUTES_bundleProductId"
  "BUNDLE_ATTRIBUTES_totalComponents \<noteq> BUNDLE_ATTRIBUTES_bundleProductId"
  "BUNDLE_ATTRIBUTES_totalComponents \<noteq> BUNDLE_ATTRIBUTES_componentIndex"
  by (simp_all add: attribute_key_defs)

lemma attributeOf_built:
  assumes "attributes line = buildBundleAttributes b i n p @ extra"
  shows "attributeOf BUNDLE_ATTRIBUTES_bundleProductId line = Some b"
    and "attributeOf BUNDLE_ATTRIBUTES_componentIndex line = Some (String_nat i)"
    and "attributeOf BUNDLE_ATTRIBUTES_totalComponents line = Some (String_nat n)"
  using assms
  by (simp_all add: attributeOf_def buildBundleAttributes_def attribute_keys_distinct)

lemma buildBundleCartLines_Inr:
  assumes "componentsToAdd definition (selectedComponents input) = Inr cs"
  shows "buildBundleCartLines definition input =
     Inr (map (\<lambda>(index, component).
                 bundleLine definition input (case in_quantity input of Some q \<Rightarrow> q | None \<Rightarrow> 1)
                   (length cs) index component)
            (enumerate 0 cs))"
  using assms by (simp add: buildBundleCartLines_def Let_def)

lemma bundleLine_nth:
  assumes "i < length cs"
  shows "map (\<lambda>(index, component). bundleLine definition input q n index component)
            (enumerate 0 cs) ! i = bundleLine definition input q n i (cs ! i)"
  using assms by (simp add: nth_enumerate_eq)

subsection \<open>Grouping\<close>

lemma list_ex_attr_iff:
  "list_ex (\<lambda>a. attr_key a = k \<and> attr_value a = v) as
     \<longleftrightarrow> \<lparr>attr_key = k, attr_value = v\<rparr> \<in> set as"
  by (induction as) auto

lemma info_productId_foldl_other:
  "\<forall>a \<in> set xs. attr_key a \<noteq> BUNDLE_ATTRIBUTES_bundleProductId \<Longrightarrow>
   info_bundleProductId (foldl getBundleInfoFromLine_step s xs) = info_bundleProductId s"
  by (induction xs arbitrary: s) (simp_all add: getBundleInfoFromLine_step_def)

lemma getBundleInfoFromLine_built:
  assumes "attributes line = buildBundleAttributes b i n p @ extra"
    and "\<forall>a \<in> set extra. attr_key a \<noteq> BUNDLE_ATTRIBUTES_bundleProductId"
  shows "info_bundleProductId (getBundleInfoFromLine line) = Some b"
  using assms
  by (simp add: getBundleInfoFromLine_def info_productId_foldl_other buildBundleAttributes_def
        getBundleInfoFromLine_step_def attribute_key_defs)

lemma isBundleLine_built:
  assumes "attributes line = buildBundleAttributes b i n p @ extra"
  shows "isBundleLine line"
  using assms by (simp add: isBundleLine_def buildBundleAttributes_def)

lemma group_step_first:
  assumes "isBundleLine l" "info_bundleProductId (getBundleInfoFromLine l) = Some b" "b \<noteq> []"
  shows "groupCartLinesByBundle_step [] l = [(b, \<lparr>bundleProductId = b, lines = [l]\<rparr>)]"
  using assms by (simp add: groupCartLinesByBundle_step_def Map_has_def)

lemma group_step_next:
  assumes "isBundleLine l" "info_bundleProductId (getBundleInfoFromLine l) = Some b" "b \<noteq> []"
  shows "groupCartLinesByBundle_step [(b, \<lparr>bundleProductId = b, lines = acc\<rparr>)] l
           = [(b, \<lparr>bundleProductId = b, lines = acc @ [l]\<rparr>)]"
  using assms by (simp add: groupCartLinesByBundle_step_def Map_has_def)

lemma group_foldl_same:
  assumes "\<forall>l \<in> set ls. isBundleLine l \<and> info_bundleProductId (getBundleInfoFromLine l) = Some b"
    and "b \<noteq> []"
  shows "foldl groupCartLinesByBundle_step [(b, \<lparr>bundleProductId = b, lines = acc\<rparr>)] ls
           = [(b, \<lparr>bundleProductId = b, lines = acc @ ls\<rparr>)]"
  using assms
proof (induction ls arbitrary: acc)
  case Nil
  then show ?case by simp
next
  case (Cons l ls)
  then show ?case by (simp add: group_step_next)
qed

lemma groupCartLinesByBundle_same:
  assumes "\<forall>l \<in> set ls. isBundleLine l \<and> info_bundleProductId (getBundleInfoFromLine l) = Some b"
    and "b \<noteq> []" and "ls \<noteq> []"
  shows "groupCartLinesByBundle ls = [(b, \<lparr>bundleProductId = b, lines = ls\<rparr>)]"
proof (cases ls)
  case Nil
  with assms(3) show ?thesis by simp
next
  case (Cons l rest)
  with assms(1) have l: "isBundleLine l" "info_bundleProductId (getBundleInfoFromLine l) = Some b"
    and rest: "\<forall>l \<in> set rest. isBundleLine l \<and> info_bundleProductId (getBundleInfoFromLine l) = Some b"
    by simp_all
  show ?thesis
    unfolding groupCartLinesByBundle_def Cons
    by (simp add: group_step_first [OF l assms(2)] group_foldl_same [OF rest assms(2)])
qed

subsection \<open>Validation\<close>

lemmas validation_defs = validateBundleSelection_def validateSelection_def truthy_and_def

lemma foldl_quantity: "foldl (\<lambda>sum s. sum + quantity s) a selections = a + totalQuantity selections"
  by (induction selections arbitrary: a) (simp_all add: totalQuantity_def)

lemma find_Some_list_ex: "list_ex P xs \<Longrightarrow> \<exists>x. find P xs = Some x"
  by (induction xs) auto

lemma acceptable_validateSelection:
  assumes "acceptableSelection definition selection"
  shows "validateSelection definition selection = None"
proof -
  from assms obtain c where c: "find (\<lambda>c. c_productId c = productId selection) (components definition) = Some c"
    and v: "list_ex (\<lambda>v. variant_id v = variantId selection) (variants c)"
    and lo: "case minQuantity c of None \<Rightarrow> True | Some n \<Rightarrow> n \<le> quantity selection"
    and hi: "case maxQuantity c of None \<Rightarrow> True | Some n \<Rightarrow> quantity selection \<le> n"
    by (auto simp: acceptableSelection_def split: option.splits)
  from find_Some_list_ex [OF v] obtain w where
    w: "find (\<lambda>v. variant_id v = variantId selection) (variants c) = Some w" by blast
  from lo have lo': "\<not> truthy_and (minQuantity c) (\<lambda>n. quantity selection < n)"
    by (auto simp: truthy_and_def split: option.splits)
  from hi have hi': "\<not> truthy_and (maxQuantity c) (\<lambda>n. quantity selection > n)"
    by (auto simp: truthy_and_def split: option.splits)
  show ?thesis
    by (simp add: validateSelection_def c w lo' hi')
qed

lemma validateSelections_first:
  "validateSelections definition selections =
     (case find (\<lambda>s. validateSelection definition s \<noteq> None) selections of
        None \<Rightarrow> \<lparr>valid = True, error = None\<rparr>
      | Some s \<Rightarrow> \<lparr>valid = False, error = validateSelection definition s\<rparr>)"
  by (induction selections) (auto split: option.splits)

lemma validateSelections_acceptable:
  "list_all (acceptableSelection definition) selections \<Longrightarrow>
   validateSelections definition selections = \<lparr>valid = True, error = None\<rparr>"
  by (induction selections) (simp_all add: acceptable_validateSelection)

subsection \<open>Prices\<close>

lemmas parse_defs = parseFloat_def parseUnsigned_def parseExponent_def pow10_def is_digit_def
  is_space_def digits_val_def digit_val_def

lemmas format_defs = toFixed2_def fixed2_def String_nat.simps digit_char_def

lemma parse_fixture: "parseFloat ''10.00'' = Num 10" "parseFloat ''15.00'' = Num 15"
  by (simp_all add: parse_defs)

lemma String_nat_hd: "String_nat n \<noteq> [] \<and> hd (String_nat n) \<noteq> CHR ''-''"
proof (induction n rule: String_nat.induct)
  case (1 n)
  show ?case
  proof (cases "n < 10")
    case True
    then have "n \<in> {0, 1, 2, 3, 4, 5, 6, 7, 8, 9}" by auto
    then show ?thesis
      by (subst (1 2) String_nat.simps) (auto simp: digit_char_def)
  next
    case False
    with 1 have "String_nat (n div 10) \<noteq> [] \<and> hd (String_nat (n div 10)) \<noteq> CHR ''-''" by simp
    with False show ?thesis
      by (subst (1 2) String_nat.simps) simp
  qed
qed

lemma toFixed2_nonneg_hd: "0 \<le> x \<Longrightarrow> hd (toFixed2 (Num x)) \<noteq> CHR ''-''"
  using String_nat_hd by (simp add: toFixed2_def fixed2_def Let_def)

lemma Math_max_zero: "Math_max (Num 0) y = NaN \<or> (\<exists>x. Math_max (Num 0) y = Num x \<and> 0 \<le> x)"
  by (cases y) simp_all

lemma bundlePriceAmount_nonneg:
  "bundlePriceAmount p t = NaN \<or> (\<exists>x. bundlePriceAmount p t = Num x \<and> 0 \<le> x)"
  unfolding bundlePriceAmount_def by (rule Math_max_zero)

lemma bundlePrice_hd: "hd (toFixed2 (bundlePriceAmount p t)) \<noteq> CHR ''-''"
  using bundlePriceAmount_nonneg [of p t] by (auto simp: toFixed2_nonneg_hd) (simp add: toFixed2_def)

lemma priceSelection_step_matched:
  "matchedVariant definition s \<noteq> None \<Longrightarrow>
   priceSelection_step definition cc st s
     = (fst st @ [selectionPrice definition cc s], num_add (snd st) (selectionTotal definition s))"
  by (auto simp: priceSelection_step_def matchedVariant_def selectionPrice_def selectionTotal_def
        Let_def split: option.splits)

lemma priceSelection_step_unmatched:
  "matchedVariant definition s = None \<Longrightarrow> priceSelection_step definition cc st s = st"
  by (auto simp: priceSelection_step_def matchedVariant_def split: option.splits)

lemma priceSelection_foldl:
  "foldl (priceSelection_step definition cc) st selections
     = (fst st @ map (selectionPrice definition cc)
                   (filter (\<lambda>s. matchedVariant definition s \<noteq> None) selections),
        foldl num_add (snd st)
          (map (selectionTotal definition)
             (filter (\<lambda>s. matchedVariant definition s \<noteq> None) selections)))"
proof (induction selections arbitrary: st)
  case Nil
  then show ?case by simp
next
  case (Cons s selections)
  show ?case
  proof (cases "matchedVariant definition s = None")
    case True
    then show ?thesis by (simp add: priceSelection_step_unmatched Cons.IH)
  next
    case False
    then show ?thesis by (simp add: priceSelection_step_matched Cons.IH)
  qed
qed

lemma priceComponents_selected:
  assumes "selections \<noteq> []"
  shows "priceComponents definition (Some selections)
     = (map (selectionPrice definition (currencyOf definition))
          (filter (\<lambda>s. matchedVariant definition s \<noteq> None) selections),
        foldl num_add (Num 0)
          (map (selectionTotal definition)
             (filter (\<lambda>s. matchedVariant definition s \<noteq> None) selections)))"
  using assms by (simp add: priceComponents_def Let_def priceSelection_foldl currencyOf_def)

subsection \<open>Inventory\<close>

lemma definedBounds_snoc:
  "definedBounds (cs @ [c]) = definedBounds cs @ (case maxAddable c of None \<Rightarrow> [] | Some m \<Rightarrow> [m])"
  by (simp add: definedBounds_def List.map_filter_def split: option.splits)

lemma minBound_snoc:
  "minBound (cs @ [c]) =
     (case maxAddable c of
        None \<Rightarrow> minBound cs
      | Some m \<Rightarrow> (case minBound cs of None \<Rightarrow> Some m | Some b \<Rightarrow> Some (min b m)))"
  by (auto simp: minBound_def definedBounds_snoc min.commute split: option.splits)

lemma definedBounds_mem:
  "b \<in> set (definedBounds cs) \<longleftrightarrow> (\<exists>c \<in> set cs. maxAddable c = Some b)"
  by (induction cs) (auto simp: definedBounds_def List.map_filter_def)

lemma minBound_Some_mem:
  assumes "minBound cs = Some b"
  shows "\<exists>c \<in> set cs. maxAddable c = Some b"
proof -
  from assms have ne: "definedBounds cs \<noteq> []" and b: "b = Min (set (definedBounds cs))"
    by (auto simp: minBound_def split: if_splits)
  then have "b \<in> set (definedBounds cs)" by simp
  then show ?thesis by (simp add: definedBounds_mem)
qed

lemma minBound_Some_le:
  assumes "minBound cs = Some b" and "c \<in> set cs" and "maxAddable c = Some m"
  shows "b \<le> m"
proof -
  from assms(1) have b: "b = Min (set (definedBounds cs))"
    by (auto simp: minBound_def split: if_splits)
  from assms(2,3) have "m \<in> set (definedBounds cs)" by (auto simp: definedBounds_mem)
  then show ?thesis unfolding b by simp
qed

lemma find_Some_ex: "\<exists>x \<in> set xs. P x \<Longrightarrow> \<exists>y. find P xs = Some y"
  by (induction xs) auto

lemma find_snoc:
  "find P (xs @ [x]) = (case find P xs of Some y \<Rightarrow> Some y | None \<Rightarrow> if P x then Some x else None)"
  by (induction xs) auto

lemma achievingComponent_snoc:
  "achievingComponent (cs @ [c]) =
     (case maxAddable c of
        None \<Rightarrow> achievingComponent cs
      | Some m \<Rightarrow>
          (case minBound cs of
             None \<Rightarrow> Some c
           | Some b \<Rightarrow> if m < b then Some c else achievingComponent cs))"
proof (cases "maxAddable c")
  case None
  show ?thesis
  proof (cases "minBound cs")
    case n: None
    with None show ?thesis by (simp add: achievingComponent_def minBound_snoc)
  next
    case (Some b)
    from minBound_Some_mem [OF Some] obtain y where "find (\<lambda>c. maxAddable c = Some b) cs = Some y"
      using find_Some_ex [of cs "\<lambda>c. maxAddable c = Some b"] by blast
    with None Some show ?thesis by (simp add: achievingComponent_def minBound_snoc find_snoc)
  qed
next
  case m: (Some m)
  show ?thesis
  proof (cases "minBound cs")
    case None
    then have "definedBounds cs = []" by (simp add: minBound_def split: if_splits)
    then have "\<forall>x \<in> set cs. maxAddable x \<noteq> Some m"
      using definedBounds_mem [of m cs] by auto
    then have "find (\<lambda>c. maxAddable c = Some m) cs = None" by (simp add: find_None_iff)
    with m None show ?thesis by (simp add: achievingComponent_def minBound_snoc find_snoc)
  next
    case (Some b)
    show ?thesis
    proof (cases "m < b")
      case True
      have "\<forall>x \<in> set cs. maxAddable x \<noteq> Some m"
        using minBound_Some_le [OF Some] True by force
      then have "find (\<lambda>c. maxAddable c = Some m) cs = None" by (simp add: find_None_iff)
      with m Some True show ?thesis
        by (simp add: achievingComponent_def minBound_snoc find_snoc min_def)
    next
      case False
      from minBound_Some_mem [OF Some] obtain y where "find (\<lambda>c. maxAddable c = Some b) cs = Some y"
        using find_Some_ex [of cs "\<lambda>c. maxAddable c = Some b"] by blast
      with m Some False show ?thesis
        by (simp add: achievingComponent_def minBound_snoc find_snoc min_def)
    qed
  qed
qed

lemma inventory_step_state:
  "inventory_step nodes (loop_state cs) check = loop_state (cs @ [componentInventoryOf nodes check])"
  by (auto simp: inventory_step_def loop_state_def Let_def minBound_snoc achievingComponent_snoc
        min_def split: option.splits)

lemma inventory_foldl_state:
  "foldl (inventory_step nodes) (loop_state cs) checks
     = loop_state (cs @ map (componentInventoryOf nodes) checks)"
  by (induction checks arbitrary: cs) (simp_all add: inventory_step_state)

lemma inventory_loop:
  "foldl (inventory_step nodes) ([], Infinity, None) checks
     = loop_state (map (componentInventoryOf nodes) checks)"
proof -
  have "loop_state [] = ([], Infinity, None)"
    by (simp add: loop_state_def minBound_def definedBounds_def achievingComponent_def
        List.map_filter_def)
  with inventory_foldl_state [of nodes "[]" checks] show ?thesis by simp
qed

lemma aggregateInventory_eq:
  "aggregateInventory nodes checks now =
     (let cs = map (componentInventoryOf nodes) checks in
      \<lparr>inv_available = \<not> list_ex (\<lambda>c. status c = out_of_stock) cs,
       inv_status = aggregateStatus cs,
       inv_maxQuantity = (case minBound cs of None \<Rightarrow> 99 | Some b \<Rightarrow> b),
       limitingComponent =
         (if aggregateStatus cs = available then None else achievingComponent cs),
       inv_components = cs,
       cachedAt = Some now\<rparr>)"
  by (simp add: aggregateInventory_def inventory_loop loop_state_def Let_def aggregateStatus_def
        split: option.splits)


lemma checkInventory_Inr:
  assumes "checkInventoryFromStorefrontApi definition config selected response now = Inr inventory"
  shows "\<exists>checks. componentsToAdd definition selected = Inr checks
     \<and> inventory = aggregateInventory (resp_nodes response) checks now"
  using assms
  by (auto simp: checkInventoryFromStorefrontApi_def split: if_splits sum.splits option.splits)

lemma checkInventory_returns:
  assumes "storefrontAccessToken config = Some token" "token \<noteq> []"
    and "componentsToAdd definition selected = Inr checks"
    and "resp_ok response" "resp_errors response = None"
  shows "checkInventoryFromStorefrontApi definition config selected response now
     = Inr (aggregateInventory (resp_nodes response) checks now)"
  using assms by (simp add: checkInventoryFromStorefrontApi_def)

lemma getAvailabilityStatus_cases:
  "(\<not> afs \<longrightarrow> getAvailabilityStatus afs q = out_of_stock)
   \<and> (afs \<longrightarrow> getAvailabilityStatus afs Undefined = available)
   \<and> (afs \<longrightarrow> getAvailabilityStatus afs (Number 0) = out_of_stock)
   \<and> (afs \<and> n \<noteq> 0 \<and> n \<le> 5 \<longrightarrow> getAvailabilityStatus afs (Number n) = limited)
   \<and> (afs \<and> 5 < n \<longrightarrow> getAvailabilityStatus afs (Number n) = available)"
  by (auto simp: getAvailabilityStatus_def LOW_STOCK_THRESHOLD_def)

lemma getAvailabilityStatus_Null: "getAvailabilityStatus True Null = limited"
  by (simp add: getAvailabilityStatus_def LOW_STOCK_THRESHOLD_def null_as_number_def)

text \<open>The inventory of a checked variant, read off its node of the response.\<close>

lemma componentInventoryOf_found:
  assumes "findNode nodes (variantId check) = Some v"
  shows "status (componentInventoryOf nodes check)
           = getAvailabilityStatus (node_availableForSale v = Some True) (node_quantityAvailable v)"
    and "ci_quantityAvailable (componentInventoryOf nodes check) = node_quantityAvailable v"
    and "node_quantityAvailable v = Number q \<Longrightarrow> 0 < quantity check \<Longrightarrow>
           maxAddable (componentInventoryOf nodes check)
             = Some \<lfloor>real_of_int q / real_of_int (quantity check)\<rfloor>"
    and "node_quantityAvailable v = Undefined \<or> quantity check \<le> 0 \<Longrightarrow>
           maxAddable (componentInventoryOf nodes check) = None"
  using assms
  by (auto simp: componentInventoryOf_def Let_def nodeAvailableForSale_def
        nodeQuantityAvailable_def floor_divide_of_int_eq split: option.splits json_number.splits)

lemma componentInventoryOf_missing:
  assumes "findNode nodes (variantId check) = None"
  shows "status (componentInventoryOf nodes check) = out_of_stock"
    and "ci_quantityAvailable (componentInventoryOf nodes check) = Undefined"
    and "maxAddable (componentInventoryOf nodes check) = None"
  using assms
  by (simp_all add: componentInventoryOf_def Let_def nodeAvailableForSale_def
        nodeQuantityAvailable_def getAvailabilityStatus_def)

lemma findNode_first:
  "findNode (Some (Some v # ns)) vid = (if node_id v = vid then Some v else findNode (Some ns) vid)"
  "findNode (Some (None # ns)) vid = findNode (Some ns) vid"
  "findNode (Some []) vid = None"
  "findNode None vid = None"
  by (simp_all add: findNode_def)

lemmas inventory_defs = checkInventoryFromStorefrontApi_def aggregateInventory_def
  inventory_step_def componentInventoryOf_def findNode_def nodeAvailableForSale_def
  nodeQuantityAvailable_def getAvailabilityStatus_def LOW_STOCK_THRESHOLD_def null_as_number_def

lemma test_check_limited:
  "checkInventoryFromStorefrontApi test_fixedBundle test_config None
     (test_response [test_node ''v1'' True (Number 4), test_node ''v2'' True (Number 20)]) ''now''
   = Inr \<lparr>inv_available = True, inv_status = limited, inv_maxQuantity = 2,
          limitingComponent =
            Some \<lparr>ci_productId = ''p1'', ci_variantId = ''v1'', status = limited,
                  ci_quantityAvailable = Number 4, maxAddable = Some 2\<rparr>,
          inv_components =
            [\<lparr>ci_productId = ''p1'', ci_variantId = ''v1'', status = limited,
              ci_quantityAvailable = Number 4, maxAddable = Some 2\<rparr>,
             \<lparr>ci_productId = ''p2'', ci_variantId = ''v2'', status = available,
              ci_quantityAvailable = Number 20, maxAddable = Some 20\<rparr>],
          cachedAt = Some ''now''\<rparr>"
  by (simp add: inventory_defs fixture_defs build_defs Let_def)

text \<open>
  The statuses of a returned inventory: every component carries the classification of
  its node, the aggregate is the worst of them, and the bundle is available when none is
  out of stock.
\<close>

lemma inventory_statuses:
  assumes "checkInventoryFromStorefrontApi definition config selected response now = Inr inventory"
  shows "\<exists>checks. componentsToAdd definition selected = Inr checks
          \<and> inv_components inventory = map (componentInventoryOf (resp_nodes response)) checks"
    and "inv_status inventory = aggregateStatus (inv_components inventory)"
    and "inv_available inventory
           \<longleftrightarrow> \<not> list_ex (\<lambda>c. status c = out_of_stock) (inv_components inventory)"
proof -
  from checkInventory_Inr [OF assms] obtain checks where
    c: "componentsToAdd definition selected = Inr checks"
    and i: "inventory = aggregateInventory (resp_nodes response) checks now" by blast
  show "\<exists>checks. componentsToAdd definition selected = Inr checks
          \<and> inv_components inventory = map (componentInventoryOf (resp_nodes response)) checks"
    using c unfolding i aggregateInventory_eq by (simp add: Let_def)
  show "inv_status inventory = aggregateStatus (inv_components inventory)"
    unfolding i aggregateInventory_eq by (simp add: Let_def)
  show "inv_available inventory
           \<longleftrightarrow> \<not> list_ex (\<lambda>c. status c = out_of_stock) (inv_components inventory)"
    unfolding i aggregateInventory_eq by (simp add: Let_def)
qed

subsection \<open>Resolver\<close>

lemmas resolve_defs = parseStorefrontResponse_def toBundleComponent_def originalPriceAmountOf_def

lemmas dbl_defs = to_double_def binade_def binade_up.simps binade_down.simps pow2_def
  round_even_def

lemma to_double_fixture:
  "to_double 10 = 10" "to_double 15 = 15" "to_double 20 = 20" "to_double 35 = 35"
  "to_double 28 = 28" "to_double 30 = 30" "to_double 100 = 100" "to_double 93 = 93"
  "to_double 7 = 7" "to_double 5 = 5"
  by (simp_all add: dbl_defs Let_def)

lemma parseFloat64_fixture:
  "parseFloat64 ''10.00'' = Num 10" "parseFloat64 ''15.00'' = Num 15"
  "parseFloat64 ''28.00'' = Num 28" "parseFloat64 ''30.00'' = Num 30"
  "parseFloat64 ''100.00'' = Num 100" "parseFloat64 ''93.00'' = Num 93"
  by (simp_all add: parseFloat64_def parse_defs to_double_fixture)

text \<open>
  The percentages of the three fixtures as JavaScript computes them: \<open>(7 / 35) * 100\<close> is
  20, \<open>(5 / 35) * 100\<close> is 14.285714285714285 and \<open>(7 / 100) * 100\<close> is 7.000000000000001.
\<close>

lemma percentage_fixture:
  "dbl_mul (dbl_div (Num 7) (Num 35)) (Num 100) = Num 20"
  "dbl_mul (dbl_div (Num 5) (Num 35)) (Num 100) = Num (2010535547933257 / 140737488355328)"
  "dbl_mul (dbl_div (Num 7) (Num 100)) (Num 100) = Num (7881299347898369 / 1125899906842624)"
  by (simp_all add: dbl_defs Let_def)


lemma num_eq_round_iff: "num_eq x (Math_round x) \<longleftrightarrow> (\<exists>k::int. x = Num (of_int k))"
proof (cases x)
  case NaN
  then show ?thesis by simp
next
  case (Num a)
  have "a = of_int \<lfloor>a + 1 / 2\<rfloor> \<longleftrightarrow> (\<exists>k::int. a = of_int k)"
  proof
    assume "a = of_int \<lfloor>a + 1 / 2\<rfloor>"
    then show "\<exists>k::int. a = of_int k" by blast
  next
    assume "\<exists>k::int. a = of_int k"
    then obtain k :: int where k: "a = of_int k" by blast
    have "\<lfloor>(of_int k :: real) + 1 / 2\<rfloor> = k" by linarith
    with k show "a = of_int \<lfloor>a + 1 / 2\<rfloor>" by simp
  qed
  with Num show ?thesis by simp
qed

lemma parseStorefrontResponse_Some:
  assumes "parseStorefrontResponse product = Some d"
  shows "\<exists>bundleVariant ns.
     components d = map toBundleComponent ns
     \<and> p_bundlePrice (pricing d) = Some (sv_price bundleVariant)
     \<and> p_savingsPercentage (pricing d)
         = Some (resolvedSavingsPercentage bundleVariant (map toBundleComponent ns))
     \<and> discountType (pricing d)
         = inferDiscountType (resolvedSavingsPercentage bundleVariant (map toBundleComponent ns))
     \<and> discountValue (pricing d)
         = Some (if inferDiscountType (resolvedSavingsPercentage bundleVariant (map toBundleComponent ns))
                    = percentage
                 then resolvedSavingsPercentage bundleVariant (map toBundleComponent ns)
                 else resolvedSavingsAmount bundleVariant (map toBundleComponent ns))"
proof -
  let ?P = "\<lambda>v. case sv_bundleComponents v of None \<Rightarrow> False | Some ns \<Rightarrow> length ns > 0"
  from assms obtain bundleVariant where
    f: "find ?P (sp_variants product) = Some bundleVariant"
    by (cases "find ?P (sp_variants product)") (simp_all add: parseStorefrontResponse_def)
  from assms f obtain ns where n: "sv_bundleComponents bundleVariant = Some ns"
    by (cases "sv_bundleComponents bundleVariant") (simp_all add: parseStorefrontResponse_def)
  from assms have d: "d = the (parseStorefrontResponse product)" by simp
  show ?thesis
    by (intro exI [of _ bundleVariant] exI [of _ ns])
       (simp add: d parseStorefrontResponse_def f n Let_def)
qed

section \<open>Tag codec: round trip\<close>

text \<open>
  Claim C1, as the code has it. Let the bundle id \<open>B\<close> be a non-empty string, let no
  custom attribute use the key \<^verbatim>\<open>_bundle_product_id\<close>, and let the component list resolve
  (selections are given, or every component has a default variant id or a first variant)
  to \<open>N \<ge> 1\<close> components. Then \<^verbatim>\<open>buildBundleCartLines\<close> returns \<open>N\<close> lines, and
  \<^verbatim>\<open>groupCartLinesByBundle\<close> applied to them yields a map with exactly one group, keyed by
  \<open>B\<close>, whose line list is exactly the built lines in the order they were built; the
  component index attribute of the \<open>i\<close>-th of them is \<open>i\<close>.
\<close>

theorem group_built_lines:
  assumes "bundle_id definition \<noteq> []"
    and "\<forall>a \<in> set (customAttributeEntries input). attr_key a \<noteq> BUNDLE_ATTRIBUTES_bundleProductId"
    and "selectionsGiven (selectedComponents input) \<or> hasDefaults definition"
    and "resolvedComponents definition (selectedComponents input) \<noteq> []"
  shows "\<exists>ls. buildBundleCartLines definition input = Inr ls
     \<and> length ls = length (resolvedComponents definition (selectedComponents input))
     \<and> groupCartLinesByBundle ls
         = [(bundle_id definition, \<lparr>bundleProductId = bundle_id definition, lines = ls\<rparr>)]
     \<and> (\<forall>i < length ls.
          attributeOf BUNDLE_ATTRIBUTES_componentIndex (ls ! i) = Some (String_nat i))"
proof -
  let ?cs = "resolvedComponents definition (selectedComponents input)"
  let ?q = "case in_quantity input of Some q \<Rightarrow> q | None \<Rightarrow> 1"
  let ?ls = "map (\<lambda>(index, component). bundleLine definition input ?q (length ?cs) index component)
               (enumerate 0 ?cs)"
  from assms(3) have cs: "componentsToAdd definition (selectedComponents input) = Inr ?cs"
    by (rule componentsToAdd_resolved)
  have built: "buildBundleCartLines definition input = Inr ?ls"
    by (rule buildBundleCartLines_Inr [OF cs])
  have len: "length ?ls = length ?cs" by simp
  have attrs: "attributes (?ls ! i)
      = buildBundleAttributes (bundle_id definition) i (length ?cs) (productId (?cs ! i))
        @ customAttributeEntries input" if "i < length ?cs" for i
    using bundleLine_nth [OF that] by (simp add: bundleLine_def)
  have each: "isBundleLine l \<and> info_bundleProductId (getBundleInfoFromLine l) = Some (bundle_id definition)"
    if "l \<in> set ?ls" for l
  proof -
    from that obtain i where i: "i < length ?ls" and l: "l = ?ls ! i"
      unfolding in_set_conv_nth by blast
    from i have "i < length ?cs" by simp
    note a = attrs [OF this]
    show ?thesis
      unfolding l
      using isBundleLine_built [OF a] getBundleInfoFromLine_built [OF a assms(2)] by simp
  qed
  have ne: "?ls \<noteq> []" using assms(4) len by (metis length_0_conv)
  have grp: "groupCartLinesByBundle ?ls
         = [(bundle_id definition, \<lparr>bundleProductId = bundle_id definition, lines = ?ls\<rparr>)]"
    by (rule groupCartLinesByBundle_same) (use each assms(1) ne in blast)+
  have idx: "attributeOf BUNDLE_ATTRIBUTES_componentIndex (?ls ! i) = Some (String_nat i)"
    if "i < length ?cs" for i
    by (rule attributeOf_built(2) [OF attrs [OF that]])
  show ?thesis
  proof (intro exI conjI)
    show "buildBundleCartLines definition input = Inr ?ls" by (rule built)
    show "length ?ls = length ?cs" by (rule len)
    show "groupCartLinesByBundle ?ls
         = [(bundle_id definition, \<lparr>bundleProductId = bundle_id definition, lines = ?ls\<rparr>)]"
      by (rule grp)
    show "\<forall>i < length ?ls. attributeOf BUNDLE_ATTRIBUTES_componentIndex (?ls ! i) = Some (String_nat i)"
      using idx unfolding len by blast
  qed
qed

text \<open>The round trip at the fixed bundle of the test suite, without selections.\<close>

theorem group_built_lines_witness:
  "bundle_id test_fixedBundle \<noteq> []
   \<and> customAttributeEntries (test_input None None) = []
   \<and> (selectionsGiven (selectedComponents (test_input None None)) \<or> hasDefaults test_fixedBundle)
   \<and> resolvedComponents test_fixedBundle (selectedComponents (test_input None None)) \<noteq> []
   \<and> (\<exists>ls. buildBundleCartLines test_fixedBundle (test_input None None) = Inr ls
         \<and> length ls = 2
         \<and> groupCartLinesByBundle ls
             = [(''gid://shopify/Product/100'',
                 \<lparr>bundleProductId = ''gid://shopify/Product/100'', lines = ls\<rparr>)])"
proof -
  have h1: "bundle_id test_fixedBundle \<noteq> []" by (simp add: fixture_defs)
  have h2: "\<forall>a \<in> set (customAttributeEntries (test_input None None)).
         attr_key a \<noteq> BUNDLE_ATTRIBUTES_bundleProductId"
    by (simp add: customAttributeEntries_def fixture_defs)
  have h3: "selectionsGiven (selectedComponents (test_input None None)) \<or> hasDefaults test_fixedBundle"
    by (simp add: hasDefaults_def fixture_defs)
  have r: "resolvedComponents test_fixedBundle (selectedComponents (test_input None None))
     = [\<lparr>productId = ''p1'', variantId = ''v1'', quantity = 2\<rparr>,
        \<lparr>productId = ''p2'', variantId = ''v2'', quantity = 1\<rparr>]"
    by (simp add: resolvedComponents_def selectionsGiven_def fixture_defs)
  have h4: "resolvedComponents test_fixedBundle (selectedComponents (test_input None None)) \<noteq> []"
    unfolding r by simp
  have b: "bundle_id test_fixedBundle = ''gid://shopify/Product/100''" by (simp add: fixture_defs)
  have c: "customAttributeEntries (test_input None None) = []"
    by (simp add: customAttributeEntries_def fixture_defs)
  from group_built_lines [OF h1 h2 h3 h4] show ?thesis
    unfolding r using h1 c h3 b by auto
qed

text \<open>
  The claim as stated fails: with the custom attribute \<^verbatim>\<open>_bundle_product_id = "other"\<close> the
  lines built for the bundle \<^verbatim>\<open>gid://shopify/Product/100\<close> are regrouped under the key
  \<^verbatim>\<open>other\<close>, because the custom attributes come after the tags and
  \<^verbatim>\<open>getBundleInfoFromLine\<close> keeps the last value of a key.
\<close>

theorem group_built_lines_counterexample:
  "bundle_id test_fixedBundle = ''gid://shopify/Product/100''
   \<and> map_sum id (map fst) (regroupBuiltLines test_fixedBundle test_overrideInput) = Inr [''other'']"
  by (simp add: fixture_defs build_defs regroupBuiltLines_def groupCartLinesByBundle_def
      groupCartLinesByBundle_step_def isBundleLine_def getBundleInfoFromLine_def
      getBundleInfoFromLine_step_def Map_has_def attribute_key_defs)

section \<open>Cart-mutation builder: one line per component\<close>

text \<open>
  Claim C2, as the code has it. When selections are given, or every component of the
  definition has a default variant id or a first variant, \<^verbatim>\<open>buildBundleCartLines\<close>
  returns exactly one line per resolved component, in order: the merchandise id of a
  line is the resolved variant id, its quantity is the quantity of the component times
  the bundle quantity of the input (1 when absent), its bundle-product-id attribute is
  the id of the definition, its total-component-count attribute is the number of lines,
  and its component-index attribute is its position; the component indices of two
  different lines differ.
\<close>

theorem buildBundleCartLines_per_component:
  assumes "selectionsGiven (selectedComponents input) \<or> hasDefaults definition"
  shows "\<exists>ls. buildBundleCartLines definition input = Inr ls
     \<and> length ls = length (resolvedComponents definition (selectedComponents input))
     \<and> (\<forall>i < length ls.
          merchandiseId (ls ! i)
            = variantId (resolvedComponents definition (selectedComponents input) ! i)
        \<and> line_quantity (ls ! i)
            = quantity (resolvedComponents definition (selectedComponents input) ! i)
              * (case in_quantity input of Some q \<Rightarrow> q | None \<Rightarrow> 1)
        \<and> attributeOf BUNDLE_ATTRIBUTES_bundleProductId (ls ! i) = Some (bundle_id definition)
        \<and> attributeOf BUNDLE_ATTRIBUTES_totalComponents (ls ! i) = Some (String_nat (length ls))
        \<and> attributeOf BUNDLE_ATTRIBUTES_componentIndex (ls ! i) = Some (String_nat i))
     \<and> (\<forall>i < length ls. \<forall>j < length ls. i \<noteq> j \<longrightarrow>
          attributeOf BUNDLE_ATTRIBUTES_componentIndex (ls ! i)
            \<noteq> attributeOf BUNDLE_ATTRIBUTES_componentIndex (ls ! j))"
proof -
  let ?cs = "resolvedComponents definition (selectedComponents input)"
  let ?q = "case in_quantity input of Some q \<Rightarrow> q | None \<Rightarrow> 1"
  let ?ls = "map (\<lambda>(index, component). bundleLine definition input ?q (length ?cs) index component)
               (enumerate 0 ?cs)"
  from assms have cs: "componentsToAdd definition (selectedComponents input) = Inr ?cs"
    by (rule componentsToAdd_resolved)
  have built: "buildBundleCartLines definition input = Inr ?ls"
    by (rule buildBundleCartLines_Inr [OF cs])
  have len: "length ?ls = length ?cs" by simp
  have nth: "?ls ! i = bundleLine definition input ?q (length ?cs) i (?cs ! i)"
    if "i < length ?cs" for i
    using that by (rule bundleLine_nth)
  have attrs: "attributes (?ls ! i)
      = buildBundleAttributes (bundle_id definition) i (length ?cs) (productId (?cs ! i))
        @ customAttributeEntries input" if "i < length ?cs" for i
    using nth [OF that] by (simp add: bundleLine_def)
  have fields: "merchandiseId (?ls ! i) = variantId (?cs ! i)
        \<and> line_quantity (?ls ! i) = quantity (?cs ! i) * ?q"
    if "i < length ?cs" for i
    using nth [OF that] by (simp add: bundleLine_def)
  have idx: "attributeOf BUNDLE_ATTRIBUTES_componentIndex (?ls ! i) = Some (String_nat i)"
    if "i < length ?cs" for i
    by (rule attributeOf_built(2) [OF attrs [OF that]])
  have pid: "attributeOf BUNDLE_ATTRIBUTES_bundleProductId (?ls ! i) = Some (bundle_id definition)"
    if "i < length ?cs" for i
    by (rule attributeOf_built(1) [OF attrs [OF that]])
  have tot: "attributeOf BUNDLE_ATTRIBUTES_totalComponents (?ls ! i)
      = Some (String_nat (length ?cs))" if "i < length ?cs" for i
    by (rule attributeOf_built(3) [OF attrs [OF that]])
  have distinct: "attributeOf BUNDLE_ATTRIBUTES_componentIndex (?ls ! i)
        \<noteq> attributeOf BUNDLE_ATTRIBUTES_componentIndex (?ls ! j)"
    if "i < length ?cs" "j < length ?cs" "i \<noteq> j" for i j
    using idx [OF that(1)] idx [OF that(2)] that(3) String_nat_inj by auto
  show ?thesis
  proof (intro exI conjI)
    show "buildBundleCartLines definition input = Inr ?ls" by (rule built)
    show "length ?ls = length ?cs" by (rule len)
    show "\<forall>i < length ?ls.
          merchandiseId (?ls ! i) = variantId (?cs ! i)
        \<and> line_quantity (?ls ! i) = quantity (?cs ! i) * ?q
        \<and> attributeOf BUNDLE_ATTRIBUTES_bundleProductId (?ls ! i) = Some (bundle_id definition)
        \<and> attributeOf BUNDLE_ATTRIBUTES_totalComponents (?ls ! i) = Some (String_nat (length ?ls))
        \<and> attributeOf BUNDLE_ATTRIBUTES_componentIndex (?ls ! i) = Some (String_nat i)"
      using fields pid tot idx unfolding len by blast
    show "\<forall>i < length ?ls. \<forall>j < length ?ls. i \<noteq> j \<longrightarrow>
          attributeOf BUNDLE_ATTRIBUTES_componentIndex (?ls ! i)
            \<noteq> attributeOf BUNDLE_ATTRIBUTES_componentIndex (?ls ! j)"
      using distinct unfolding len by blast
  qed
qed

text \<open>
  The scenario of the specification: bundle quantity 3 and a component that requires 2
  units give a line quantity of 6.
\<close>

theorem buildBundleCartLines_per_component_witness:
  "(selectionsGiven (selectedComponents (test_input None (Some 3))) \<or> hasDefaults test_fixedBundle)
   \<and> (\<exists>ls. buildBundleCartLines test_fixedBundle (test_input None (Some 3)) = Inr ls
         \<and> length ls = 2 \<and> line_quantity (ls ! 0) = 6 \<and> merchandiseId (ls ! 1) = ''v2''
         \<and> attributeOf BUNDLE_ATTRIBUTES_componentIndex (ls ! 1) = Some ''1'')"
proof -
  have h: "selectionsGiven (selectedComponents (test_input None (Some 3))) \<or> hasDefaults test_fixedBundle"
    by (simp add: hasDefaults_def fixture_defs)
  have r: "resolvedComponents test_fixedBundle (selectedComponents (test_input None (Some 3)))
     = [\<lparr>productId = ''p1'', variantId = ''v1'', quantity = 2\<rparr>,
        \<lparr>productId = ''p2'', variantId = ''v2'', quantity = 1\<rparr>]"
    by (simp add: resolvedComponents_def selectionsGiven_def fixture_defs)
  have s: "String_nat 1 = ''1''" by (simp add: String_nat.simps digit_char_def)
  have q: "in_quantity (test_input None (Some 3)) = Some 3" by (simp add: test_input_def)
  from buildBundleCartLines_per_component [OF h] show ?thesis
    unfolding r q using h s by auto
qed

text \<open>
  The claim as stated ("for every definition and input") fails: for a component without
  a default variant id and without variants, \<^verbatim>\<open>c.variants[0]!.id\<close> throws and no line is
  emitted.
\<close>

theorem buildBundleCartLines_counterexample:
  "components test_noVariantBundle \<noteq> []
   \<and> buildBundleCartLines test_noVariantBundle (test_input None None) = Inl TypeError"
  by (simp add: fixture_defs build_defs)

section \<open>Tag codec: bundle lines\<close>

text \<open>
  Claim C9. \<^verbatim>\<open>isBundleLine\<close> is true exactly when the attribute list of the line has an
  entry with the key \<^verbatim>\<open>_bundle_parent\<close> and the value \<^verbatim>\<open>"true"\<close>: an entry with another
  value (such as \<^verbatim>\<open>"false"\<close>) or no entry with that key gives false.
\<close>

theorem isBundleLine_iff:
  "isBundleLine line \<longleftrightarrow>
     \<lparr>attr_key = BUNDLE_ATTRIBUTES_bundleParent, attr_value = ''true''\<rparr> \<in> set (attributes line)"
  unfolding isBundleLine_def by (rule list_ex_attr_iff)

text \<open>A line whose bundle-parent attribute is \<^verbatim>\<open>"false"\<close> is not a bundle line.\<close>

theorem isBundleLine_iff_witness:
  "\<not> isBundleLine \<lparr>attributes = [\<lparr>attr_key = ''_bundle_parent'', attr_value = ''false''\<rparr>]\<rparr>
   \<and> isBundleLine \<lparr>attributes = [\<lparr>attr_key = ''_bundle_parent'', attr_value = ''true''\<rparr>]\<rparr>"
  using isBundleLine_iff [of "\<lparr>attributes = [\<lparr>attr_key = ''_bundle_parent'', attr_value = ''false''\<rparr>]\<rparr>"]
    isBundleLine_iff [of "\<lparr>attributes = [\<lparr>attr_key = ''_bundle_parent'', attr_value = ''true''\<rparr>]\<rparr>"]
  by (simp add: BUNDLE_ATTRIBUTES_bundleParent_def)

section \<open>Selection validation\<close>

text \<open>
  Claim C8. For a definition of bundle type \<^verbatim>\<open>fixed\<close>, \<^verbatim>\<open>validateBundleSelection\<close> returns
  \<^verbatim>\<open>valid = true\<close>, with no error, whatever the selection list is.
\<close>

theorem validateBundleSelection_fixed:
  "bundleType definition = fixed \<Longrightarrow>
   validateBundleSelection definition selections = \<lparr>valid = True, error = None\<rparr>"
  by (simp add: validateBundleSelection_def)

theorem validateBundleSelection_fixed_witness:
  "bundleType test_fixedBundle = fixed
   \<and> valid (validateBundleSelection test_fixedBundle
              [\<lparr>productId = ''p999'', variantId = ''v1'', quantity = 7\<rparr>])"
proof -
  have h: "bundleType test_fixedBundle = fixed" by (simp add: fixture_defs)
  from validateBundleSelection_fixed [OF h] show ?thesis using h by simp
qed

text \<open>
  Claim C7, as the code has it. Let the definition be mix-and-match with
  \<^verbatim>\<open>minSelections = m\<close> and \<^verbatim>\<open>maxSelections = M\<close>, both different from 0. Then a
  selection list whose total quantity is below \<open>m\<close> is rejected with the message
  "Please select at least m items."; one whose total quantity is at least \<open>m\<close> and
  exceeds \<open>M\<close> is rejected with "You can select at most M items."; one within
  \<open>[m, M]\<close> whose every entry names the product id of a component, a variant of the
  first component with that product id, and a quantity within that component's own
  min/max is accepted; and within \<open>[m, M]\<close> the result is the error of the first entry
  that has one, or valid when no entry has one.
\<close>

theorem validateBundleSelection_mix_and_match:
  assumes "bundleType definition = mix_and_match"
    and "minSelections definition = Some m" and "m \<noteq> 0"
    and "maxSelections definition = Some M" and "M \<noteq> 0"
  shows "(totalQuantity selections < m \<longrightarrow>
            validateBundleSelection definition selections
              = \<lparr>valid = False,
                 error = Some (''Please select at least '' @ String_int m @ '' items.'')\<rparr>)
    \<and> (m \<le> totalQuantity selections \<and> M < totalQuantity selections \<longrightarrow>
            validateBundleSelection definition selections
              = \<lparr>valid = False,
                 error = Some (''You can select at most '' @ String_int M @ '' items.'')\<rparr>)
    \<and> (m \<le> totalQuantity selections \<and> totalQuantity selections \<le> M
         \<and> list_all (acceptableSelection definition) selections \<longrightarrow>
            validateBundleSelection definition selections = \<lparr>valid = True, error = None\<rparr>)
    \<and> (m \<le> totalQuantity selections \<and> totalQuantity selections \<le> M \<longrightarrow>
            validateBundleSelection definition selections
              = (case find (\<lambda>s. validateSelection definition s \<noteq> None) selections of
                   None \<Rightarrow> \<lparr>valid = True, error = None\<rparr>
                 | Some s \<Rightarrow> \<lparr>valid = False, error = validateSelection definition s\<rparr>))"
proof -
  have nf: "bundleType definition \<noteq> fixed" using assms(1) by simp
  have lo: "truthy_and (Some m) P \<longleftrightarrow> P m" for P
    using assms(3) by (simp add: truthy_and_def)
  have hi: "truthy_and (Some M) P \<longleftrightarrow> P M" for P
    using assms(5) by (simp add: truthy_and_def)
  have unfold: "validateBundleSelection definition selections =
      (if totalQuantity selections < m
       then \<lparr>valid = False, error = Some (''Please select at least '' @ String_int m @ '' items.'')\<rparr>
       else if M < totalQuantity selections
       then \<lparr>valid = False, error = Some (''You can select at most '' @ String_int M @ '' items.'')\<rparr>
       else validateSelections definition selections)"
    using nf by (simp add: validateBundleSelection_def Let_def foldl_quantity assms(2,4) lo hi)
  show ?thesis
  proof (intro conjI impI)
    assume "totalQuantity selections < m"
    then show "validateBundleSelection definition selections
        = \<lparr>valid = False, error = Some (''Please select at least '' @ String_int m @ '' items.'')\<rparr>"
      unfolding unfold by simp
  next
    assume "m \<le> totalQuantity selections \<and> M < totalQuantity selections"
    then show "validateBundleSelection definition selections
        = \<lparr>valid = False, error = Some (''You can select at most '' @ String_int M @ '' items.'')\<rparr>"
      unfolding unfold by simp
  next
    assume "m \<le> totalQuantity selections \<and> totalQuantity selections \<le> M
         \<and> list_all (acceptableSelection definition) selections"
    then show "validateBundleSelection definition selections = \<lparr>valid = True, error = None\<rparr>"
      unfolding unfold by (simp add: validateSelections_acceptable)
  next
    assume "m \<le> totalQuantity selections \<and> totalQuantity selections \<le> M"
    then show "validateBundleSelection definition selections
        = (case find (\<lambda>s. validateSelection definition s \<noteq> None) selections of
             None \<Rightarrow> \<lparr>valid = True, error = None\<rparr>
           | Some s \<Rightarrow> \<lparr>valid = False, error = validateSelection definition s\<rparr>)"
      using validateSelections_first [of "definition" selections] unfolding unfold by simp
  qed
qed

text \<open>The four validation cases of the test suite, with bounds 2 and 4.\<close>

theorem validateBundleSelection_mix_and_match_witness:
  "validateBundleSelection test_mixAndMatchBundle [\<lparr>productId = ''p1'', variantId = ''v1'', quantity = 1\<rparr>]
     = \<lparr>valid = False, error = Some ''Please select at least 2 items.''\<rparr>
   \<and> validateBundleSelection test_mixAndMatchBundle
       [\<lparr>productId = ''p1'', variantId = ''v1'', quantity = 3\<rparr>,
        \<lparr>productId = ''p2'', variantId = ''v2'', quantity = 3\<rparr>]
     = \<lparr>valid = False, error = Some ''You can select at most 4 items.''\<rparr>
   \<and> validateBundleSelection test_mixAndMatchBundle
       [\<lparr>productId = ''p1'', variantId = ''v1'', quantity = 1\<rparr>,
        \<lparr>productId = ''p2'', variantId = ''v2'', quantity = 1\<rparr>]
     = \<lparr>valid = True, error = None\<rparr>
   \<and> validateBundleSelection test_mixAndMatchBundle
       [\<lparr>productId = ''p999'', variantId = ''v1'', quantity = 1\<rparr>,
        \<lparr>productId = ''p2'', variantId = ''v2'', quantity = 1\<rparr>]
     = \<lparr>valid = False, error = Some ''Invalid product selection: p999''\<rparr>"
proof -
  have h: "bundleType test_mixAndMatchBundle = mix_and_match"
    "minSelections test_mixAndMatchBundle = Some 2" "(2::int) \<noteq> 0"
    "maxSelections test_mixAndMatchBundle = Some 4" "(4::int) \<noteq> 0"
    by (simp_all add: fixture_defs)
  note t = validateBundleSelection_mix_and_match [OF h]
  have s: "String_int 2 = ''2''" "String_int 4 = ''4''"
    by (simp_all add: String_int_def String_nat.simps digit_char_def)
  have a: "acceptableSelection test_mixAndMatchBundle \<lparr>productId = ''p1'', variantId = ''v1'', quantity = 1\<rparr>"
    "acceptableSelection test_mixAndMatchBundle \<lparr>productId = ''p2'', variantId = ''v2'', quantity = 1\<rparr>"
    by (simp_all add: acceptableSelection_def fixture_defs)
  have v: "validateSelection test_mixAndMatchBundle \<lparr>productId = ''p999'', variantId = ''v1'', quantity = 1\<rparr>
      = Some ''Invalid product selection: p999''"
    by (simp add: validateSelection_def fixture_defs)
  show ?thesis
    using t [of "[\<lparr>productId = ''p1'', variantId = ''v1'', quantity = 1\<rparr>]"]
      t [of "[\<lparr>productId = ''p1'', variantId = ''v1'', quantity = 3\<rparr>,
               \<lparr>productId = ''p2'', variantId = ''v2'', quantity = 3\<rparr>]"]
      t [of "[\<lparr>productId = ''p1'', variantId = ''v1'', quantity = 1\<rparr>,
               \<lparr>productId = ''p2'', variantId = ''v2'', quantity = 1\<rparr>]"]
      t [of "[\<lparr>productId = ''p999'', variantId = ''v1'', quantity = 1\<rparr>,
               \<lparr>productId = ''p2'', variantId = ''v2'', quantity = 1\<rparr>]"]
    by (simp add: totalQuantity_def s a v)
qed

text \<open>
  The claim as stated fails for a bound of 0, which the truthiness test in
  \<^verbatim>\<open>definition.maxSelections && ...\<close> treats like an absent bound: with
  \<^verbatim>\<open>maxSelections = 0\<close> a selection of total quantity 1 is accepted.
\<close>

theorem validateBundleSelection_mix_and_match_counterexample:
  "bundleType test_zeroBoundsBundle = mix_and_match
   \<and> minSelections test_zeroBoundsBundle = Some 0
   \<and> maxSelections test_zeroBoundsBundle = Some 0
   \<and> totalQuantity [\<lparr>productId = ''p1'', variantId = ''v1'', quantity = 1\<rparr>] = 1
   \<and> validateBundleSelection test_zeroBoundsBundle
         [\<lparr>productId = ''p1'', variantId = ''v1'', quantity = 1\<rparr>]
       = \<lparr>valid = True, error = None\<rparr>"
  by (simp add: fixture_defs validation_defs totalQuantity_def)

section \<open>Price calculator\<close>

text \<open>
  Claim C3, as the code has it. For every definition and selection set, the result of
  the local price calculation carries the two-digit formats of the total
  \<^verbatim>\<open>originalPriceTotal\<close>, of the bundle price and of their difference, the savings; the
  bundle price is never negative (it is \<open>NaN\<close> or at least 0, and its formatted amount
  has no minus sign); the savings percentage is 0 when the total is 0; and when the
  discount type is \<^verbatim>\<open>fixed_price\<close> and the discount value is a number that is at least
  0, the bundle price is the discount value, whatever the component prices are.
\<close>

theorem calculatePrice_invariants:
  "amount (originalPrice (calculatePriceFromDefinition definition selected))
     = toFixed2 (snd (priceComponents definition selected))
   \<and> amount (bundlePrice (calculatePriceFromDefinition definition selected))
     = toFixed2 (bundlePriceAmount (pricing definition) (snd (priceComponents definition selected)))
   \<and> amount (savings (calculatePriceFromDefinition definition selected))
     = toFixed2 (num_sub (snd (priceComponents definition selected))
          (bundlePriceAmount (pricing definition) (snd (priceComponents definition selected))))
   \<and> \<not> num_lt (bundlePriceAmount (pricing definition) (snd (priceComponents definition selected))) (Num 0)
   \<and> hd (amount (bundlePrice (calculatePriceFromDefinition definition selected))) \<noteq> CHR ''-''
   \<and> (snd (priceComponents definition selected) = Num 0 \<longrightarrow>
        savingsPercentage (calculatePriceFromDefinition definition selected) = Num 0)
   \<and> (\<forall>v. discountType (pricing definition) = fixed_price
          \<and> discountValue (pricing definition) = Some (Num v) \<and> 0 \<le> v \<longrightarrow>
        bundlePriceAmount (pricing definition) (snd (priceComponents definition selected)) = Num v
        \<and> amount (bundlePrice (calculatePriceFromDefinition definition selected)) = toFixed2 (Num v))"
proof -
  let ?t = "snd (priceComponents definition selected)"
  let ?b = "bundlePriceAmount (pricing definition) ?t"
  let ?r = "calculatePriceFromDefinition definition selected"
  have o: "amount (originalPrice ?r) = toFixed2 ?t"
    by (simp add: calculatePriceFromDefinition_def Let_def)
  have b: "amount (bundlePrice ?r) = toFixed2 ?b"
    by (simp add: calculatePriceFromDefinition_def Let_def)
  have s: "amount (savings ?r) = toFixed2 (num_sub ?t ?b)"
    by (simp add: calculatePriceFromDefinition_def Let_def savingsAmount_def)
  have n: "\<not> num_lt ?b (Num 0)"
    using bundlePriceAmount_nonneg [of "pricing definition" ?t] by auto
  have h: "hd (amount (bundlePrice ?r)) \<noteq> CHR ''-''"
    unfolding b by (rule bundlePrice_hd)
  have z: "?t = Num 0 \<longrightarrow> savingsPercentage ?r = Num 0"
    by (simp add: calculatePriceFromDefinition_def Let_def savingsPercentageOf_def)
  have f: "?b = Num v" if "discountType (pricing definition) = fixed_price"
    "discountValue (pricing definition) = Some (Num v)" "0 \<le> v" for v
    using that by (simp add: bundlePriceAmount_def discountedAmount_def)
  from o b s n h z f show ?thesis by simp
qed


text \<open>
  A fixed price of 20, the scenario of the specification (10.00 x 2 and 15.00 x 1 with
  5 off: savings 5.00) and a total of 0.
\<close>

theorem calculatePrice_invariants_witness:
  "amount (bundlePrice (calculatePriceFromDefinition test_fixedPriceBundle None)) = ''20.00''
   \<and> amount (savings (calculatePriceFromDefinition test_fixedAmountBundle None)) = ''5.00''
   \<and> savingsPercentage
        (calculatePriceFromDefinition test_fixedBundle
           (Some [\<lparr>productId = ''p9'', variantId = ''v1'', quantity = 1\<rparr>])) = Num 0"
proof -
  have t1: "snd (priceComponents test_fixedAmountBundle None) = Num 35"
    by (simp add: priceComponents_def priceDefault_step_def defaultVariantOf_def fixture_defs
        parse_fixture Let_def)
  have b1: "bundlePriceAmount (pricing test_fixedAmountBundle) (Num 35) = Num 30"
    by (simp add: bundlePriceAmount_def discountedAmount_def fixture_defs)
  have p2: "discountType (pricing test_fixedPriceBundle) = fixed_price
    \<and> discountValue (pricing test_fixedPriceBundle) = Some (Num 20) \<and> (0::real) \<le> 20"
    by (simp add: fixture_defs)
  have t3: "snd (priceComponents test_fixedBundle
      (Some [\<lparr>productId = ''p9'', variantId = ''v1'', quantity = 1\<rparr>])) = Num 0"
    by (simp add: priceComponents_def priceSelection_step_def fixture_defs Let_def)
  have f: "toFixed2 (Num 20) = ''20.00''" "toFixed2 (Num 5) = ''5.00''"
    by (simp_all add: format_defs)
  have "amount (bundlePrice (calculatePriceFromDefinition test_fixedPriceBundle None)) = ''20.00''"
    using calculatePrice_invariants [of test_fixedPriceBundle None] p2 f by simp
  moreover have "amount (savings (calculatePriceFromDefinition test_fixedAmountBundle None)) = ''5.00''"
    using calculatePrice_invariants [of test_fixedAmountBundle None] t1 b1 f by simp
  moreover have "savingsPercentage
        (calculatePriceFromDefinition test_fixedBundle
           (Some [\<lparr>productId = ''p9'', variantId = ''v1'', quantity = 1\<rparr>])) = Num 0"
    using calculatePrice_invariants
      [of test_fixedBundle "Some [\<lparr>productId = ''p9'', variantId = ''v1'', quantity = 1\<rparr>]"] t3
    by simp
  ultimately show ?thesis by simp
qed

text \<open>
  The claim as stated fails for a negative discount value: the floor at 0 wins over the
  fixed price.
\<close>

theorem calculatePrice_fixed_price_counterexample:
  "discountType (pricing test_negativeFixedPriceBundle) = fixed_price
   \<and> discountValue (pricing test_negativeFixedPriceBundle) = Some (Num (- 5))
   \<and> bundlePrice (calculatePriceFromDefinition test_negativeFixedPriceBundle None)
       = \<lparr>amount = ''0.00'', currencyCode = ''USD''\<rparr>"
  by (simp add: calculatePriceFromDefinition_def bundlePriceAmount_def discountedAmount_def
      fixture_defs format_defs Let_def)

text \<open>
  Claim C10. For a non-empty selection list, the local price calculation skips every
  selection whose product id matches no component, or whose variant id matches no
  variant of the matched component: the price breakdown has exactly the entries of the
  other selections, in order, the original price is the format of the sum of their line
  totals, and when nothing matches the breakdown is empty and the original price is
  \<^verbatim>\<open>"0.00"\<close>. The function is total: no selection makes it throw.
\<close>

theorem calculatePrice_skips_unmatched:
  assumes "selections \<noteq> []"
  shows "componentPrices (calculatePriceFromDefinition definition (Some selections))
       = map (selectionPrice definition (currencyOf definition))
           (filter (\<lambda>s. matchedVariant definition s \<noteq> None) selections)
    \<and> originalPrice (calculatePriceFromDefinition definition (Some selections))
       = \<lparr>amount = toFixed2 (foldl num_add (Num 0)
                      (map (selectionTotal definition)
                         (filter (\<lambda>s. matchedVariant definition s \<noteq> None) selections))),
          currencyCode = currencyOf definition\<rparr>
    \<and> (list_all (\<lambda>s. matchedVariant definition s = None) selections \<longrightarrow>
         componentPrices (calculatePriceFromDefinition definition (Some selections)) = []
         \<and> originalPrice (calculatePriceFromDefinition definition (Some selections))
             = \<lparr>amount = ''0.00'', currencyCode = currencyOf definition\<rparr>)"
proof -
  let ?m = "filter (\<lambda>s. matchedVariant definition s \<noteq> None) selections"
  note pc = priceComponents_selected [OF assms, of "definition"]
  have cp: "componentPrices (calculatePriceFromDefinition definition (Some selections))
       = map (selectionPrice definition (currencyOf definition)) ?m"
    by (simp add: calculatePriceFromDefinition_def Let_def pc)
  have op: "originalPrice (calculatePriceFromDefinition definition (Some selections))
       = \<lparr>amount = toFixed2 (foldl num_add (Num 0) (map (selectionTotal definition) ?m)),
          currencyCode = currencyOf definition\<rparr>"
    by (simp add: calculatePriceFromDefinition_def Let_def pc currencyOf_def)
  have none: "?m = []" if "list_all (\<lambda>s. matchedVariant definition s = None) selections"
    using that by (simp add: list_all_iff filter_empty_conv)
  have z: "toFixed2 (Num 0) = ''0.00''" by (simp add: format_defs)
  show ?thesis
    using cp op none z by simp
qed

text \<open>Two unmatched selections and a matched one; two unmatched selections alone.\<close>

theorem calculatePrice_skips_unmatched_witness:
  "componentPrices
     (calculatePriceFromDefinition test_fixedBundle
        (Some [\<lparr>productId = ''p9'', variantId = ''v1'', quantity = 1\<rparr>,
               \<lparr>productId = ''p2'', variantId = ''v9'', quantity = 1\<rparr>,
               \<lparr>productId = ''p2'', variantId = ''v2'', quantity = 3\<rparr>]))
     = [\<lparr>cp_productId = ''p2'', cp_variantId = ''v2'', cp_quantity = 3,
         unitPrice = \<lparr>amount = ''15.00'', currencyCode = ''USD''\<rparr>,
         lineTotal = \<lparr>amount = ''45.00'', currencyCode = ''USD''\<rparr>\<rparr>]
   \<and> originalPrice
       (calculatePriceFromDefinition test_fixedBundle
          (Some [\<lparr>productId = ''p9'', variantId = ''v1'', quantity = 1\<rparr>,
                 \<lparr>productId = ''p2'', variantId = ''v9'', quantity = 1\<rparr>]))
     = \<lparr>amount = ''0.00'', currencyCode = ''USD''\<rparr>"
proof -
  let ?a = "\<lparr>productId = ''p9'', variantId = ''v1'', quantity = 1\<rparr>"
  let ?b = "\<lparr>productId = ''p2'', variantId = ''v9'', quantity = 1\<rparr>"
  let ?c = "\<lparr>productId = ''p2'', variantId = ''v2'', quantity = 3\<rparr>"
  have m: "matchedVariant test_fixedBundle ?a = None" "matchedVariant test_fixedBundle ?b = None"
    "matchedVariant test_fixedBundle ?c = Some (test_variant ''v2'' ''15.00'')"
    by (simp_all add: matchedVariant_def fixture_defs)
  have cc: "currencyOf test_fixedBundle = ''USD''" by (simp add: currencyOf_def fixture_defs)
  have sp: "selectionPrice test_fixedBundle ''USD'' ?c
     = \<lparr>cp_productId = ''p2'', cp_variantId = ''v2'', cp_quantity = 3,
         unitPrice = \<lparr>amount = ''15.00'', currencyCode = ''USD''\<rparr>,
         lineTotal = \<lparr>amount = ''45.00'', currencyCode = ''USD''\<rparr>\<rparr>"
    by (simp add: selectionPrice_def selectionTotal_def m parse_fixture format_defs test_variant_def)
  have ne: "[?a, ?b, ?c] \<noteq> []" "[?a, ?b] \<noteq> []" by simp_all
  show ?thesis
    using calculatePrice_skips_unmatched [OF ne(1), of test_fixedBundle]
      calculatePrice_skips_unmatched [OF ne(2), of test_fixedBundle]
    by (simp add: m cc sp format_defs)
qed

section \<open>Inventory aggregator\<close>

text \<open>
  Claim C5. The claim classifies a component that is available for sale with an unknown
  quantity as \<^verbatim>\<open>available\<close>. The code does so only when the quantity is \<^verbatim>\<open>undefined\<close>. The
  Storefront API reports an unknown quantity as \<^verbatim>\<open>null\<close>, and there the code departs from
  the claim: \<^verbatim>\<open>null === undefined\<close> and \<^verbatim>\<open>null === 0\<close> are false and \<^verbatim>\<open>null <= 5\<close> is true, so
  the component is \<^verbatim>\<open>limited\<close>, its \<^verbatim>\<open>maxAddable\<close> is \<open>floor(null / 2) = 0\<close>, and the bundle
  is reported as limited with a maximum quantity of 0. With the same node not available
  for sale the component is out of stock and the bundle unavailable, as the claim says.
\<close>

theorem inventory_status_null_quantity:
  "checkInventoryFromStorefrontApi test_fixedBundle test_config
     (Some [\<lparr>productId = ''p1'', variantId = ''v1'', quantity = 2\<rparr>])
     (test_response [test_node ''v1'' True Null]) ''now''
   = Inr \<lparr>inv_available = True, inv_status = limited, inv_maxQuantity = 0,
          limitingComponent =
            Some \<lparr>ci_productId = ''p1'', ci_variantId = ''v1'', status = limited,
                  ci_quantityAvailable = Null, maxAddable = Some 0\<rparr>,
          inv_components =
            [\<lparr>ci_productId = ''p1'', ci_variantId = ''v1'', status = limited,
              ci_quantityAvailable = Null, maxAddable = Some 0\<rparr>],
          cachedAt = Some ''now''\<rparr>
   \<and> checkInventoryFromStorefrontApi test_fixedBundle test_config
     (Some [\<lparr>productId = ''p1'', variantId = ''v1'', quantity = 2\<rparr>])
     (test_response [test_node ''v1'' False Null]) ''now''
   = Inr \<lparr>inv_available = False, inv_status = out_of_stock, inv_maxQuantity = 0,
          limitingComponent =
            Some \<lparr>ci_productId = ''p1'', ci_variantId = ''v1'', status = out_of_stock,
                  ci_quantityAvailable = Null, maxAddable = Some 0\<rparr>,
          inv_components =
            [\<lparr>ci_productId = ''p1'', ci_variantId = ''v1'', status = out_of_stock,
              ci_quantityAvailable = Null, maxAddable = Some 0\<rparr>],
          cachedAt = Some ''now''\<rparr>"
  by (simp add: inventory_defs fixture_defs build_defs Let_def)

text \<open>
  Claim C4, as the code has it. Whenever the inventory check returns, with the
  components in the order of the checked variants: the \<^verbatim>\<open>maxAddable\<close> of a component is
  \<open>floor(quantityAvailable / requiredQuantity)\<close> when the node of its variant gives the
  quantity as a number and the required quantity is positive, and it is undefined when
  the response has no node for the variant, when the node has no quantity field, or when
  the required quantity is not positive (a quantity given as \<^verbatim>\<open>null\<close> is left aside
  here); \<^verbatim>\<open>maxQuantity\<close> is the minimum of the defined bounds, or 99 when no component
  defines one; and \<^verbatim>\<open>limitingComponent\<close> is the first component that achieves that
  minimum, present exactly when the aggregate status is \<^verbatim>\<open>out_of_stock\<close> or \<^verbatim>\<open>limited\<close> and
  some component defines a bound, absent otherwise.
\<close>

theorem inventory_bounds:
  assumes "checkInventoryFromStorefrontApi definition config selected response now = Inr inventory"
  shows "(\<exists>checks. componentsToAdd definition selected = Inr checks
          \<and> length (inv_components inventory) = length checks
          \<and> (\<forall>i < length checks.
                ci_variantId (inv_components inventory ! i) = variantId (checks ! i)
              \<and> (\<forall>v q. findNode (resp_nodes response) (variantId (checks ! i)) = Some v
                      \<and> node_quantityAvailable v = Number q \<and> 0 < quantity (checks ! i) \<longrightarrow>
                    maxAddable (inv_components inventory ! i)
                      = Some \<lfloor>real_of_int q / real_of_int (quantity (checks ! i))\<rfloor>)
              \<and> (findNode (resp_nodes response) (variantId (checks ! i)) = None
                    \<or> (\<exists>v. findNode (resp_nodes response) (variantId (checks ! i)) = Some v
                          \<and> node_quantityAvailable v = Undefined)
                    \<or> quantity (checks ! i) \<le> 0 \<longrightarrow>
                    maxAddable (inv_components inventory ! i) = None)))
    \<and> inv_maxQuantity inventory
        = (if definedBounds (inv_components inventory) = [] then 99
           else Min (set (definedBounds (inv_components inventory))))
    \<and> limitingComponent inventory
        = (if inv_status inventory = available \<or> definedBounds (inv_components inventory) = [] then None
           else find (\<lambda>c. maxAddable c = Some (Min (set (definedBounds (inv_components inventory)))))
                  (inv_components inventory))
    \<and> (limitingComponent inventory \<noteq> None \<longleftrightarrow>
          (inv_status inventory = out_of_stock \<or> inv_status inventory = limited)
          \<and> definedBounds (inv_components inventory) \<noteq> [])
    \<and> (\<forall>c. limitingComponent inventory = Some c \<longrightarrow>
          c \<in> set (inv_components inventory) \<and> maxAddable c = Some (inv_maxQuantity inventory))"
proof -
  from checkInventory_Inr [OF assms] obtain checks where
    c: "componentsToAdd definition selected = Inr checks"
    and i: "inventory = aggregateInventory (resp_nodes response) checks now" by blast
  let ?nodes = "resp_nodes response"
  let ?cs = "map (componentInventoryOf ?nodes) checks"
  have comps: "inv_components inventory = ?cs"
    unfolding i aggregateInventory_eq by (simp add: Let_def)
  have st: "inv_status inventory = aggregateStatus ?cs"
    unfolding i aggregateInventory_eq by (simp add: Let_def)
  have mq: "inv_maxQuantity inventory = (case minBound ?cs of None \<Rightarrow> 99 | Some b \<Rightarrow> b)"
    unfolding i aggregateInventory_eq by (simp add: Let_def)
  have lc: "limitingComponent inventory
      = (if aggregateStatus ?cs = available then None else achievingComponent ?cs)"
    unfolding i aggregateInventory_eq by (simp add: Let_def)
  have each: "ci_variantId (?cs ! i) = variantId (checks ! i)
      \<and> (\<forall>v q. findNode ?nodes (variantId (checks ! i)) = Some v
              \<and> node_quantityAvailable v = Number q \<and> 0 < quantity (checks ! i) \<longrightarrow>
            maxAddable (?cs ! i) = Some \<lfloor>real_of_int q / real_of_int (quantity (checks ! i))\<rfloor>)
      \<and> (findNode ?nodes (variantId (checks ! i)) = None
            \<or> (\<exists>v. findNode ?nodes (variantId (checks ! i)) = Some v
                  \<and> node_quantityAvailable v = Undefined)
            \<or> quantity (checks ! i) \<le> 0 \<longrightarrow>
            maxAddable (?cs ! i) = None)"
    if "i < length checks" for i
  proof (intro conjI allI impI)
    show "ci_variantId (?cs ! i) = variantId (checks ! i)"
      using that by (simp add: componentInventoryOf_def Let_def)
  next
    fix v q
    assume "findNode ?nodes (variantId (checks ! i)) = Some v
              \<and> node_quantityAvailable v = Number q \<and> 0 < quantity (checks ! i)"
    then show "maxAddable (?cs ! i) = Some \<lfloor>real_of_int q / real_of_int (quantity (checks ! i))\<rfloor>"
      using that componentInventoryOf_found(3) [of ?nodes "checks ! i" v q] by simp
  next
    assume a: "findNode ?nodes (variantId (checks ! i)) = None
            \<or> (\<exists>v. findNode ?nodes (variantId (checks ! i)) = Some v
                  \<and> node_quantityAvailable v = Undefined)
            \<or> quantity (checks ! i) \<le> 0"
    have "maxAddable (componentInventoryOf ?nodes (checks ! i)) = None"
    proof (cases "findNode ?nodes (variantId (checks ! i))")
      case None
      then show ?thesis by (rule componentInventoryOf_missing(3))
    next
      case (Some v)
      with a have "node_quantityAvailable v = Undefined \<or> quantity (checks ! i) \<le> 0" by auto
      then show ?thesis by (rule componentInventoryOf_found(4) [OF Some])
    qed
    then show "maxAddable (?cs ! i) = None" using that by simp
  qed
  have body: "\<forall>i < length checks.
                ci_variantId (inv_components inventory ! i) = variantId (checks ! i)
              \<and> (\<forall>v q. findNode (resp_nodes response) (variantId (checks ! i)) = Some v
                      \<and> node_quantityAvailable v = Number q \<and> 0 < quantity (checks ! i) \<longrightarrow>
                    maxAddable (inv_components inventory ! i)
                      = Some \<lfloor>real_of_int q / real_of_int (quantity (checks ! i))\<rfloor>)
              \<and> (findNode (resp_nodes response) (variantId (checks ! i)) = None
                    \<or> (\<exists>v. findNode (resp_nodes response) (variantId (checks ! i)) = Some v
                          \<and> node_quantityAvailable v = Undefined)
                    \<or> quantity (checks ! i) \<le> 0 \<longrightarrow>
                    maxAddable (inv_components inventory ! i) = None)"
  proof (intro allI impI)
    fix i assume "i < length checks"
    from each [OF this]
    show "ci_variantId (inv_components inventory ! i) = variantId (checks ! i)
              \<and> (\<forall>v q. findNode (resp_nodes response) (variantId (checks ! i)) = Some v
                      \<and> node_quantityAvailable v = Number q \<and> 0 < quantity (checks ! i) \<longrightarrow>
                    maxAddable (inv_components inventory ! i)
                      = Some \<lfloor>real_of_int q / real_of_int (quantity (checks ! i))\<rfloor>)
              \<and> (findNode (resp_nodes response) (variantId (checks ! i)) = None
                    \<or> (\<exists>v. findNode (resp_nodes response) (variantId (checks ! i)) = Some v
                          \<and> node_quantityAvailable v = Undefined)
                    \<or> quantity (checks ! i) \<le> 0 \<longrightarrow>
                    maxAddable (inv_components inventory ! i) = None)"
      unfolding comps .
  qed
  have len: "length (inv_components inventory) = length checks" unfolding comps by simp
  have part1: "\<exists>checks. componentsToAdd definition selected = Inr checks
          \<and> length (inv_components inventory) = length checks
          \<and> (\<forall>i < length checks.
                ci_variantId (inv_components inventory ! i) = variantId (checks ! i)
              \<and> (\<forall>v q. findNode (resp_nodes response) (variantId (checks ! i)) = Some v
                      \<and> node_quantityAvailable v = Number q \<and> 0 < quantity (checks ! i) \<longrightarrow>
                    maxAddable (inv_components inventory ! i)
                      = Some \<lfloor>real_of_int q / real_of_int (quantity (checks ! i))\<rfloor>)
              \<and> (findNode (resp_nodes response) (variantId (checks ! i)) = None
                    \<or> (\<exists>v. findNode (resp_nodes response) (variantId (checks ! i)) = Some v
                          \<and> node_quantityAvailable v = Undefined)
                    \<or> quantity (checks ! i) \<le> 0 \<longrightarrow>
                    maxAddable (inv_components inventory ! i) = None))"
    by (intro exI [of _ checks] conjI) (rule c, rule len, rule body)
  have part2: "inv_maxQuantity inventory
        = (if definedBounds (inv_components inventory) = [] then 99
           else Min (set (definedBounds (inv_components inventory))))"
    unfolding mq comps by (simp add: minBound_def)
  have part3: "limitingComponent inventory
        = (if inv_status inventory = available \<or> definedBounds (inv_components inventory) = [] then None
           else find (\<lambda>c. maxAddable c = Some (Min (set (definedBounds (inv_components inventory)))))
                  (inv_components inventory))"
    unfolding lc st comps by (simp add: achievingComponent_def minBound_def)
  have status3: "inv_status inventory = out_of_stock \<or> inv_status inventory = limited
      \<or> inv_status inventory = available"
    unfolding st aggregateStatus_def by simp
  have found: "\<exists>y. find (\<lambda>c. maxAddable c = Some (Min (set (definedBounds ?cs)))) ?cs = Some y"
    if "definedBounds ?cs \<noteq> []"
  proof -
    from that have "minBound ?cs = Some (Min (set (definedBounds ?cs)))" by (simp add: minBound_def)
    from minBound_Some_mem [OF this] show ?thesis by (rule find_Some_ex)
  qed
  have part4: "limitingComponent inventory \<noteq> None \<longleftrightarrow>
          (inv_status inventory = out_of_stock \<or> inv_status inventory = limited)
          \<and> definedBounds (inv_components inventory) \<noteq> []"
    unfolding part3 using status3 found unfolding comps by auto
  have part5: "c \<in> set (inv_components inventory) \<and> maxAddable c = Some (inv_maxQuantity inventory)"
    if "limitingComponent inventory = Some c" for c
  proof -
    from that have ne: "definedBounds (inv_components inventory) \<noteq> []"
      and f: "find (\<lambda>c. maxAddable c = Some (Min (set (definedBounds (inv_components inventory)))))
                  (inv_components inventory) = Some c"
      unfolding part3 by (auto split: if_splits)
    from f have "c \<in> set (inv_components inventory)
        \<and> maxAddable c = Some (Min (set (definedBounds (inv_components inventory))))"
      by (auto simp: find_Some_iff)
    with ne show ?thesis unfolding part2 by simp
  qed
  from part1 part2 part3 part4 part5 show ?thesis by blast
qed

text \<open>
  The scenario of the specification: 4 units of a component that needs 2 per bundle give
  the bound 2, the bundle is limited and the limiting component is that one.
\<close>

theorem inventory_bounds_witness:
  "\<exists>inventory.
     checkInventoryFromStorefrontApi test_fixedBundle test_config None
       (test_response [test_node ''v1'' True (Number 4), test_node ''v2'' True (Number 20)]) ''now''
     = Inr inventory
     \<and> map maxAddable (inv_components inventory) = [Some 2, Some 20]
     \<and> inv_status inventory = limited
     \<and> inv_maxQuantity inventory = 2
     \<and> map_option ci_productId (limitingComponent inventory) = Some ''p1''"
proof -
  note r = test_check_limited
  from inventory_bounds [OF r] show ?thesis
    unfolding r by simp
qed

text \<open>
  The claim as stated fails when no component defines a bound: for two variants the
  response does not know, the bundle is out of stock and yet has no limiting component
  (and the sentinel 99 as its maximum quantity).
\<close>

theorem inventory_bounds_counterexample:
  "map_sum id (\<lambda>i. (inv_status i, limitingComponent i, inv_maxQuantity i))
     (checkInventoryFromStorefrontApi test_fixedBundle test_config None
        (test_response [None, None]) ''now'')
   = Inr (out_of_stock, None, 99)"
  by (simp add: inventory_defs fixture_defs build_defs Let_def)

section \<open>Bundle resolver\<close>

text \<open>
  Claim C6. For every product that the direct-storefront path normalises, with the
  savings percentage computed in doubles from the component prices and the bundle
  variant's price: the inferred discount type is \<^verbatim>\<open>percentage\<close> when the savings
  percentage equals its rounding, that is, when it is an integer, and \<^verbatim>\<open>fixed_amount\<close>
  otherwise; the discount value is the savings percentage in the first case and the
  savings amount in the second.
\<close>

theorem parseStorefrontResponse_discountType:
  assumes "parseStorefrontResponse product = Some d"
  shows "\<exists>original bundlePriceAmount' savingsAmount' savingsPercentage'.
       original = originalPriceAmountOf (components d)
     \<and> Some bundlePriceAmount' = map_option (\<lambda>m. parseFloat64 (amount m)) (p_bundlePrice (pricing d))
     \<and> savingsAmount' = dbl_sub original bundlePriceAmount'
     \<and> savingsPercentage'
         = (if num_gt original (Num 0)
            then dbl_mul (dbl_div savingsAmount' original) (Num 100) else Num 0)
     \<and> p_savingsPercentage (pricing d) = Some savingsPercentage'
     \<and> discountType (pricing d)
         = (if num_eq savingsPercentage' (Math_round savingsPercentage') then percentage
            else fixed_amount)
     \<and> (num_eq savingsPercentage' (Math_round savingsPercentage')
          \<longleftrightarrow> (\<exists>k::int. savingsPercentage' = Num (of_int k)))
     \<and> discountValue (pricing d)
         = Some (if num_eq savingsPercentage' (Math_round savingsPercentage')
                 then savingsPercentage' else savingsAmount')"
proof -
  from parseStorefrontResponse_Some [OF assms] obtain bundleVariant ns where
    c: "components d = map toBundleComponent ns"
    and b: "p_bundlePrice (pricing d) = Some (sv_price bundleVariant)"
    and sp: "p_savingsPercentage (pricing d)
         = Some (resolvedSavingsPercentage bundleVariant (map toBundleComponent ns))"
    and dt: "discountType (pricing d)
         = inferDiscountType (resolvedSavingsPercentage bundleVariant (map toBundleComponent ns))"
    and dv: "discountValue (pricing d)
         = Some (if inferDiscountType (resolvedSavingsPercentage bundleVariant (map toBundleComponent ns))
                    = percentage
                 then resolvedSavingsPercentage bundleVariant (map toBundleComponent ns)
                 else resolvedSavingsAmount bundleVariant (map toBundleComponent ns))"
    by blast
  let ?cs = "map toBundleComponent ns"
  let ?o = "originalPriceAmountOf ?cs"
  let ?b = "parseFloat64 (amount (sv_price bundleVariant))"
  let ?sa = "resolvedSavingsAmount bundleVariant ?cs"
  let ?sp = "resolvedSavingsPercentage bundleVariant ?cs"
  have sa: "?sa = dbl_sub ?o ?b" by (simp add: resolvedSavingsAmount_def)
  have sp': "?sp = (if num_gt ?o (Num 0) then dbl_mul (dbl_div ?sa ?o) (Num 100) else Num 0)"
    by (simp add: resolvedSavingsPercentage_def)
  have it: "inferDiscountType ?sp = (if num_eq ?sp (Math_round ?sp) then percentage else fixed_amount)"
    by (simp add: inferDiscountType_def)
  show ?thesis
  proof (intro exI conjI)
    show "?o = originalPriceAmountOf (components d)" by (simp add: c)
    show "Some ?b = map_option (\<lambda>m. parseFloat64 (amount m)) (p_bundlePrice (pricing d))"
      by (simp add: b)
    show "?sa = dbl_sub ?o ?b" by (rule sa)
    show "?sp = (if num_gt ?o (Num 0) then dbl_mul (dbl_div ?sa ?o) (Num 100) else Num 0)"
      by (rule sp')
    show "p_savingsPercentage (pricing d) = Some ?sp" by (rule sp)
    show "discountType (pricing d)
        = (if num_eq ?sp (Math_round ?sp) then percentage else fixed_amount)"
      unfolding dt it by simp
    show "num_eq ?sp (Math_round ?sp) \<longleftrightarrow> (\<exists>k::int. ?sp = Num (of_int k))"
      by (rule num_eq_round_iff)
    show "discountValue (pricing d) = Some (if num_eq ?sp (Math_round ?sp) then ?sp else ?sa)"
      unfolding dv it by simp
  qed
qed

text \<open>
  Components worth 35.00: sold at 28.00 the savings are 20 percent; sold at 30.00 they
  are 14.285714285714285 percent, and the discount is the fixed amount 5. A component
  worth 100.00 sold at 93.00: the savings are 7 percent of the price, but
  \<open>(7 / 100) * 100\<close> is 7.000000000000001 in doubles, and the discount is the fixed
  amount 7.
\<close>

theorem parseStorefrontResponse_discountType_witness:
  "(\<exists>d. parseStorefrontResponse (test_product ''28.00'') = Some d
        \<and> discountType (pricing d) = percentage \<and> discountValue (pricing d) = Some (Num 20))
   \<and> (\<exists>d. parseStorefrontResponse (test_product ''30.00'') = Some d
        \<and> p_savingsPercentage (pricing d) = Some (Num (2010535547933257 / 140737488355328))
        \<and> discountType (pricing d) = fixed_amount \<and> discountValue (pricing d) = Some (Num 5))
   \<and> (\<exists>d. parseStorefrontResponse (test_product100 ''93.00'') = Some d
        \<and> p_savingsPercentage (pricing d) = Some (Num (7881299347898369 / 1125899906842624))
        \<and> discountType (pricing d) = fixed_amount \<and> discountValue (pricing d) = Some (Num 7))"
proof -
  note fx = parseFloat64_fixture to_double_fixture percentage_fixture
  have first: "\<exists>d. parseStorefrontResponse (test_product ''28.00'') = Some d
        \<and> discountType (pricing d) = percentage \<and> discountValue (pricing d) = Some (Num 20)"
  proof -
    define d where "d = the (parseStorefrontResponse (test_product ''28.00''))"
    have r: "parseStorefrontResponse (test_product ''28.00'') = Some d"
      by (simp add: d_def parseStorefrontResponse_def fixture_defs Let_def)
    have o: "originalPriceAmountOf (components d) = Num 35"
      by (simp add: d_def resolve_defs fixture_defs fx Let_def)
    have b: "p_bundlePrice (pricing d) = Some \<lparr>amount = ''28.00'', currencyCode = ''USD''\<rparr>"
      by (simp add: d_def resolve_defs fixture_defs Let_def)
    have s: "dbl_sub (Num 35) (Num 28) = Num 7" by (simp add: fx)
    from parseStorefrontResponse_discountType [OF r]
    have "discountType (pricing d) = percentage \<and> discountValue (pricing d) = Some (Num 20)"
      unfolding o b by (auto simp: parseFloat64_fixture s percentage_fixture
          simp del: dbl_sub.simps dbl_mul.simps dbl_div.simps)
    with r show ?thesis by blast
  qed
  have second: "\<exists>d. parseStorefrontResponse (test_product ''30.00'') = Some d
        \<and> p_savingsPercentage (pricing d) = Some (Num (2010535547933257 / 140737488355328))
        \<and> discountType (pricing d) = fixed_amount \<and> discountValue (pricing d) = Some (Num 5)"
  proof -
    define d where "d = the (parseStorefrontResponse (test_product ''30.00''))"
    have r: "parseStorefrontResponse (test_product ''30.00'') = Some d"
      by (simp add: d_def parseStorefrontResponse_def fixture_defs Let_def)
    have o: "originalPriceAmountOf (components d) = Num 35"
      by (simp add: d_def resolve_defs fixture_defs fx Let_def)
    have b: "p_bundlePrice (pricing d) = Some \<lparr>amount = ''30.00'', currencyCode = ''USD''\<rparr>"
      by (simp add: d_def resolve_defs fixture_defs Let_def)
    have s: "dbl_sub (Num 35) (Num 30) = Num 5" by (simp add: fx)
    from parseStorefrontResponse_discountType [OF r]
    have "p_savingsPercentage (pricing d) = Some (Num (2010535547933257 / 140737488355328))
        \<and> discountType (pricing d) = fixed_amount \<and> discountValue (pricing d) = Some (Num 5)"
      unfolding o b by (auto simp: parseFloat64_fixture s percentage_fixture
          simp del: dbl_sub.simps dbl_mul.simps dbl_div.simps)
    with r show ?thesis by blast
  qed
  have third: "\<exists>d. parseStorefrontResponse (test_product100 ''93.00'') = Some d
        \<and> p_savingsPercentage (pricing d) = Some (Num (7881299347898369 / 1125899906842624))
        \<and> discountType (pricing d) = fixed_amount \<and> discountValue (pricing d) = Some (Num 7)"
  proof -
    define d where "d = the (parseStorefrontResponse (test_product100 ''93.00''))"
    have r: "parseStorefrontResponse (test_product100 ''93.00'') = Some d"
      by (simp add: d_def parseStorefrontResponse_def fixture_defs Let_def)
    have o: "originalPriceAmountOf (components d) = Num 100"
      by (simp add: d_def resolve_defs fixture_defs fx Let_def)
    have b: "p_bundlePrice (pricing d) = Some \<lparr>amount = ''93.00'', currencyCode = ''USD''\<rparr>"
      by (simp add: d_def resolve_defs fixture_defs Let_def)
    have s: "dbl_sub (Num 100) (Num 93) = Num 7" by (simp add: fx)
    from parseStorefrontResponse_discountType [OF r]
    have "p_savingsPercentage (pricing d) = Some (Num (7881299347898369 / 1125899906842624))
        \<and> discountType (pricing d) = fixed_amount \<and> discountValue (pricing d) = Some (Num 7)"
      unfolding o b by (auto simp: parseFloat64_fixture s percentage_fixture
          simp del: dbl_sub.simps dbl_mul.simps dbl_div.simps)
    with r show ?thesis by blast
  qed
  from first second third show ?thesis by blast
qed

end
